theory Spec2Isabelle
  imports Complex_Main
begin

unbundle bit_operations_syntax

section \<open>The cimbar codec: a shallow embedding of \<^verbatim>\<open>cimbar/cimbar.py\<close>\<close>

text \<open>
  The module \<^verbatim>\<open>cimbar.py\<close> orchestrates the encoder and the decoder of a
  colour-icon matrix barcode. Python integers are unbounded, so they are \<open>int\<close>.
  Exceptions are values of the type \<open>error\<close>; a function that can raise returns
  \<open>error + 'a\<close> with \<open>Inl\<close> for the exception.
\<close>

subsection \<open>Constants (lines 48 to 59)\<close>

definition TOTAL_SIZE :: int where "TOTAL_SIZE = 1024"
definition BITS_PER_SYMBOL :: int where "BITS_PER_SYMBOL = 4"
definition BITS_PER_COLOR :: int where "BITS_PER_COLOR = 2"
definition BITS_PER_OP :: int where "BITS_PER_OP = BITS_PER_SYMBOL + BITS_PER_COLOR"
definition CELL_SIZE :: int where "CELL_SIZE = 8"
definition CELL_SPACING :: int where "CELL_SPACING = CELL_SIZE + 1"
definition CELL_DIMENSIONS :: int where "CELL_DIMENSIONS = 112"
definition CELLS_OFFSET :: int where "CELLS_OFFSET = 8"
definition ECC :: int where "ECC = 30"
definition INTERLEAVE_BLOCKS :: int where "INTERLEAVE_BLOCKS = 155"
definition INTERLEAVE_PARTITIONS :: int where "INTERLEAVE_PARTITIONS = 2"
definition FOUNTAIN_BLOCKS :: int where "FOUNTAIN_BLOCKS = 10"

lemmas cimbar_constants =
  TOTAL_SIZE_def BITS_PER_SYMBOL_def BITS_PER_COLOR_def BITS_PER_OP_def CELL_SIZE_def
  CELL_SPACING_def CELL_DIMENSIONS_def CELLS_OFFSET_def ECC_def INTERLEAVE_BLOCKS_def
  INTERLEAVE_PARTITIONS_def FOUNTAIN_BLOCKS_def

subsection \<open>Exceptions\<close>

text \<open>
  \<open>UnboundLocalError\<close> is what Python raises when a local variable is read before any
  assignment; \<open>ZeroDivisionError\<close> comes from the true division \<^verbatim>\<open>/\<close>;
  \<open>FileNotFoundError\<close> from \<^verbatim>\<open>Image.open\<close>; \<open>KeyError\<close> from a lookup of a
  missing index; \<open>Raised\<close> is an exception that
  a collaborator outside this module raises (the deskewer, for instance).
\<close>

datatype error =
    UnboundLocalError
  | ZeroDivisionError
  | FileNotFoundError string
  | KeyError int
  | Raised string

subsection \<open>Images (the part of PIL that the module uses)\<close>

text \<open>
  An image has a mode, a size, and a pixel at every coordinate inside the size. The
  pixel function is total; only its values at \<open>0 \<le> i < img_w\<close>, \<open>0 \<le> j < img_h\<close>
  belong to the image.
\<close>

datatype pixel = RGB int int int | L int

datatype mode = ModeRGB | ModeL

record image =
  img_mode :: mode
  img_w :: int
  img_h :: int
  img_px :: "int \<Rightarrow> int \<Rightarrow> pixel"

definition zero_pixel :: "mode \<Rightarrow> pixel" where
  "zero_pixel m = (case m of ModeRGB \<Rightarrow> RGB 0 0 0 | ModeL \<Rightarrow> L 0)"

definition inside :: "image \<Rightarrow> int \<Rightarrow> int \<Rightarrow> bool" where
  "inside img i j = (0 \<le> i \<and> i < img_w img \<and> 0 \<le> j \<and> j < img_h img)"

text \<open>\<^verbatim>\<open>Image.new('RGB', (w, h), color=(r, g, b))\<close>.\<close>

definition Image_new :: "int \<times> int \<Rightarrow> int \<times> int \<times> int \<Rightarrow> image" where
  "Image_new dims color =
     (case color of (r, g, b) \<Rightarrow>
        \<lparr>img_mode = ModeRGB, img_w = fst dims, img_h = snd dims,
         img_px = (\<lambda>i j. RGB r g b)\<rparr>)"

text \<open>
  \<^verbatim>\<open>img.crop((left, upper, right, lower))\<close>: the box is given by its left and upper
  edge (inclusive) and its right and lower edge (exclusive), so the result is
  \<open>right - left\<close> wide and \<open>lower - upper\<close> high. Pixels of the box that lie outside
  the source are zero.
\<close>

definition crop :: "image \<Rightarrow> int \<times> int \<times> int \<times> int \<Rightarrow> image" where
  "crop img box =
     (case box of (left, upper, right, lower) \<Rightarrow>
        \<lparr>img_mode = img_mode img, img_w = right - left, img_h = lower - upper,
         img_px = (\<lambda>i j. if inside img (left + i) (upper + j)
                          then img_px img (left + i) (upper + j)
                          else zero_pixel (img_mode img))\<rparr>)"

text \<open>
  \<^verbatim>\<open>img.paste(im, (x, y))\<close>: the pixels of \<open>im\<close> replace those of \<open>img\<close> in the
  region whose upper left corner is \<open>(x, y)\<close>, clipped to \<open>img\<close>. Python mutates
  \<open>img\<close>; the model returns the new image. Mode and size stay those of \<open>img\<close>.
\<close>

definition paste :: "image \<Rightarrow> image \<Rightarrow> int \<times> int \<Rightarrow> image" where
  "paste img im pos =
     (case pos of (x, y) \<Rightarrow>
        img\<lparr>img_px := (\<lambda>i j. if inside im (i - x) (j - y)
                               then img_px im (i - x) (j - y)
                               else img_px img i j)\<rparr>)"

subsection \<open>The collaborators of the cell decoder\<close>

text \<open>
  \<^verbatim>\<open>CimbDecoder\<close> lives in \<^verbatim>\<open>cimbar/encode/cimb_translator.py\<close>, outside this module.
  \<open>_decode_cell\<close> calls two of its methods, which are parameters here:
  \<open>decode_symbol\<close> returns \<open>(bits, min_distance)\<close> and \<open>decode_color\<close> returns an
  integer that \<open>_decode_cell\<close> adds to the symbol bits.
\<close>

record cimb_decoder =
  decode_symbol :: "image \<Rightarrow> int \<times> int"
  decode_color :: "image \<Rightarrow> int"

text \<open>
  The drift hint handed out by the decode order: the accumulated offset
  \<^verbatim>\<open>drift.x\<close>, \<^verbatim>\<open>drift.y\<close> and the ordered search set \<^verbatim>\<open>drift.pairs\<close>.
\<close>

record drift =
  drift_x :: int
  drift_y :: int
  drift_pairs :: "(int \<times> int) list"

subsection \<open>\<open>_decode_cell\<close> (lines 78 to 96)\<close>

text \<open>
  The loop of lines 80 to 91. Its state is \<open>best_distance\<close> and the three variables
  \<open>best_bits\<close>, \<open>best_dx\<close>, \<open>best_dy\<close>, which are assigned together and are unbound
  (\<open>None\<close>) until the first assignment. The \<^verbatim>\<open>break\<close> of line 91 ends the recursion.
\<close>

fun decode_cell_loop ::
  "cimb_decoder \<Rightarrow> image \<Rightarrow> int \<Rightarrow> int \<Rightarrow> drift \<Rightarrow> (int \<times> int) list \<Rightarrow>
   int \<times> (int \<times> int \<times> int) option \<Rightarrow> int \<times> (int \<times> int \<times> int) option" where
  "decode_cell_loop ct img x y drift [] st = st"
| "decode_cell_loop ct img x y drift (p # rest) st =
     (case p of (dx, dy) \<Rightarrow>
      case st of (best_distance, best) \<Rightarrow>
        let testX = x + drift_x drift + dx;
            testY = y + drift_y drift + dy;
            img_cell = crop img (testX, testY, testX + CELL_SIZE, testY + CELL_SIZE)
        in case decode_symbol ct img_cell of (bits, min_distance) \<Rightarrow>
          let best_distance' = min min_distance best_distance;
              best' = (if min_distance = best_distance' then Some (bits, dx, dy) else best)
          in if min_distance < 8 then (best_distance', best')
             else decode_cell_loop ct img x y drift rest (best_distance', best'))"

text \<open>
  Line 95: the patch handed to the colour classifier. Python reads
  \<^verbatim>\<open>testX + CELL_SIZE-2\<close> as \<open>(testX + CELL_SIZE) - 2\<close>.
\<close>

definition best_cell :: "image \<Rightarrow> int \<Rightarrow> int \<Rightarrow> drift \<Rightarrow> int \<Rightarrow> int \<Rightarrow> image" where
  "best_cell color_img x y drift best_dx best_dy =
     (let testX = x + drift_x drift + best_dx;
          testY = y + drift_y drift + best_dy
      in crop color_img (testX + 1, testY + 1, testX + CELL_SIZE - 2, testY + CELL_SIZE - 2))"

text \<open>
  The whole function. Reading \<open>best_dx\<close> on line 93 while it is unbound raises
  \<open>UnboundLocalError\<close>. The result is \<open>(bits, best_dx, best_dy, best_distance)\<close>.
\<close>

definition decode_cell ::
  "cimb_decoder \<Rightarrow> image \<Rightarrow> image \<Rightarrow> int \<Rightarrow> int \<Rightarrow> drift \<Rightarrow>
   error + (int \<times> int \<times> int \<times> int)" where
  "decode_cell ct img color_img x y drift =
     (case decode_cell_loop ct img x y drift (drift_pairs drift) (1000, None) of
        (best_distance, None) \<Rightarrow> Inl UnboundLocalError
      | (best_distance, Some (best_bits, best_dx, best_dy)) \<Rightarrow>
          Inr (best_bits + decode_color ct (best_cell color_img x y drift best_dx best_dy),
               best_dx, best_dy, best_distance))"

subsection \<open>Raising and sequencing\<close>

text \<open>
  \<open>bind_err r f\<close> continues with \<open>f\<close> when \<open>r\<close> is a value and propagates the
  exception otherwise, as a Python statement sequence does.
\<close>

definition bind_err :: "error + 'a \<Rightarrow> ('a \<Rightarrow> error + 'b) \<Rightarrow> error + 'b" where
  "bind_err r f = (case r of Inl e \<Rightarrow> Inl e | Inr v \<Rightarrow> f v)"

subsection \<open>\<open>_fountain_chunk_size\<close> (lines 70 and 71)\<close>

text \<open>
  \<^verbatim>\<open>int((155-ecc) * bits_per_op * 10 / fountain_blocks)\<close>. Python's \<^verbatim>\<open>/\<close> on
  integers is true division: it raises \<open>ZeroDivisionError\<close> on a zero divisor and
  otherwise returns the float nearest to the exact quotient; \<^verbatim>\<open>int\<close> then truncates
  towards zero. The model computes the exact quotient as a rational number. The two
  agree whenever the absolute values of dividend and divisor add up to less than
  \<open>2 ^ 53\<close>: the float is then the exact quotient when that is an integer, and lies
  strictly between the same two integers as the exact quotient when it is not. The
  default arguments \<open>BITS_PER_OP\<close> and \<open>FOUNTAIN_BLOCKS\<close> are passed explicitly.
\<close>

definition truediv :: "int \<Rightarrow> int \<Rightarrow> error + rat" where
  "truediv a b = (if b = 0 then Inl ZeroDivisionError else Inr (of_int a / of_int b))"

definition py_int :: "rat \<Rightarrow> int" where
  "py_int q = (if 0 \<le> q then \<lfloor>q\<rfloor> else \<lceil>q\<rceil>)"

definition fountain_chunk_size :: "int \<Rightarrow> int \<Rightarrow> int \<Rightarrow> error + int" where
  "fountain_chunk_size ecc bits_per_op fountain_blocks =
     bind_err (truediv ((155 - ecc) * bits_per_op * 10) fountain_blocks)
       (\<lambda>q. Inr (py_int q))"

subsection \<open>The byte pipelines (lines 141 and 142, lines 181 to 183)\<close>

text \<open>
  A byte stream is either a file opened by \<^verbatim>\<open>open(name, 'rb')\<close> or
  \<^verbatim>\<open>open(name, 'wb')\<close>, or one of the wrappers of the collaborating modules, built
  from its constructor arguments: \<^verbatim>\<open>fountain_encoder_stream(src, chunk_size)\<close>,
  \<^verbatim>\<open>fountain_decoder_stream(dst, chunk_size)\<close> and
  \<^verbatim>\<open>reed_solomon_stream(stream, ecc, mode=...)\<close> (the mode is \<open>None\<close> when the call
  leaves it to the default).
\<close>

datatype stream =
    open_rb string
  | open_wb string
  | fountain_encoder_stream string int
  | fountain_decoder_stream string int
  | reed_solomon_stream stream int "string option"

text \<open>
  Lines 181 to 183 of \<open>encode_iter\<close>: the stream handed to the bit reader, and the
  read size. \<^verbatim>\<open>if ecc\<close> tests \<open>ecc \<noteq> 0\<close>. A stream is a value here, the
  description of how it was built: \<^verbatim>\<open>open(src_data, 'rb')\<close> raises in the code when
  the file cannot be opened, and the constructors of the other module may raise too;
  the function below describes the runs in which they return, and the only exception
  it has is the one of \<open>_fountain_chunk_size\<close>.
\<close>

definition encode_iter_instream :: "string \<Rightarrow> int \<Rightarrow> bool \<Rightarrow> error + stream \<times> int" where
  "encode_iter_instream src_data ecc fountain =
     bind_err (if fountain
               then bind_err (fountain_chunk_size ecc BITS_PER_OP FOUNTAIN_BLOCKS)
                      (\<lambda>n. Inr (fountain_encoder_stream src_data n))
               else Inr (open_rb src_data))
       (\<lambda>fes. let rss = (if ecc \<noteq> 0 then reed_solomon_stream fes ecc None else fes)
              in bind_err (if fountain then fountain_chunk_size ecc BITS_PER_OP FOUNTAIN_BLOCKS
                           else Inr 16384)
                   (\<lambda>read_size. Inr (rss, read_size)))"

text \<open>Lines 141 and 142 of \<open>decode\<close>: the stream the interleaved writer writes to.\<close>

definition decode_outstream :: "string \<Rightarrow> int \<Rightarrow> bool \<Rightarrow> error + stream" where
  "decode_outstream outfile ecc fountain =
     bind_err (if fountain
               then bind_err (fountain_chunk_size ecc BITS_PER_OP FOUNTAIN_BLOCKS)
                      (\<lambda>n. Inr (fountain_decoder_stream outfile n))
               else Inr (open_wb outfile))
       (\<lambda>fds. let rss = (if ecc \<noteq> 0 then reed_solomon_stream fds ecc (Some ''write'') else fds)
              in Inr rss)"

subsection \<open>Files and temporary directories\<close>

text \<open>
  The part of the file system that the module touches: the image files by path, and
  the temporary directories that exist. \<^verbatim>\<open>Image.open\<close> raises when there is no such
  file. \<open>basename\<close> and \<open>path_join\<close> are those of \<^verbatim>\<open>posixpath\<close>.
\<close>

record fs =
  fs_files :: "string \<rightharpoonup> image"
  fs_tempdirs :: "string list"

definition Image_open :: "fs \<Rightarrow> string \<Rightarrow> error + image" where
  "Image_open s name =
     (case fs_files s name of None \<Rightarrow> Inl (FileNotFoundError name) | Some img \<Rightarrow> Inr img)"

definition basename :: "string \<Rightarrow> string" where
  "basename p = rev (takeWhile (\<lambda>c. c \<noteq> CHR ''/'') (rev p))"

definition path_join :: "string \<Rightarrow> string \<Rightarrow> string" where
  "path_join a b =
     (if b \<noteq> [] \<and> hd b = CHR ''/'' then b
      else if a = [] \<or> last a = CHR ''/'' then a @ b
      else a @ ''/'' @ b)"

text \<open>
  \<^verbatim>\<open>TemporaryDirectory()\<close> creates a directory under a name that the operating
  system picks (\<open>mkdtemp\<close>, a parameter). Leaving \<^verbatim>\<open>with tempdir:\<close> removes the
  directory and everything under it.
\<close>

definition TemporaryDirectory :: "(fs \<Rightarrow> string) \<Rightarrow> fs \<Rightarrow> string \<times> fs" where
  "TemporaryDirectory mkdtemp s =
     (let name = mkdtemp s in (name, s\<lparr>fs_tempdirs := name # fs_tempdirs s\<rparr>))"

definition tempdir_cleanup :: "string \<Rightarrow> fs \<Rightarrow> fs" where
  "tempdir_cleanup name s =
     s\<lparr>fs_files := (\<lambda>p. if take (length name + 1) p = name @ ''/'' then None
                          else fs_files s p),
       fs_tempdirs := removeAll name (fs_tempdirs s)\<rparr>"

subsection \<open>The collaborators of the page decoder\<close>

text \<open>
  \<open>decode_iter\<close> calls code of other modules and of OpenCV. They are parameters:
  \<^item> \<open>mkdtemp\<close>: the name a new temporary directory gets;
  \<^item> \<open>deskewer\<close>: \<^verbatim>\<open>deskewer(src_image, temp_image, dark, auto_dewarp=...)\<close>, which
    may raise, may write files, and returns the dimensions of the warped image;
  \<^item> \<open>CimbDecoder\<close>: the constructor, from \<open>dark\<close>, \<open>symbol_bits\<close> and \<open>color_bits\<close>;
  \<^item> \<open>cvtColor\<close> and \<open>filter2D\<close> of OpenCV (an array is represented as an image);
  \<^item> \<open>cell_positions\<close>, \<open>AdjacentCellFinder\<close> and \<open>FloodDecodeOrder\<close>, the latter an
    iterator with state \<open>'o\<close>: \<open>flood_next\<close> yields \<open>(i, (x, y), drift)\<close> or ends,
    \<open>flood_update\<close> is \<^verbatim>\<open>decode_order.update(best_dx, best_dy, best_distance)\<close>.
\<close>

datatype conversion = COLOR_RGB2BGR | COLOR_BGR2GRAY

record ('f, 'o) decode_env =
  mkdtemp :: "fs \<Rightarrow> string"
  deskewer :: "string \<Rightarrow> string \<Rightarrow> bool \<Rightarrow> bool \<Rightarrow> fs \<Rightarrow> (error + int \<times> int) \<times> fs"
  CimbDecoder :: "bool \<Rightarrow> int \<Rightarrow> int \<Rightarrow> cimb_decoder"
  cvtColor :: "image \<Rightarrow> conversion \<Rightarrow> image"
  filter2D :: "image \<Rightarrow> int \<Rightarrow> rat list list \<Rightarrow> image"
  cell_positions :: "int \<Rightarrow> int \<Rightarrow> int \<Rightarrow> (int \<times> int) list"
  AdjacentCellFinder :: "(int \<times> int) list \<Rightarrow> int \<Rightarrow> 'f"
  FloodDecodeOrder :: "(int \<times> int) list \<Rightarrow> 'f \<Rightarrow> 'o"
  flood_next :: "'o \<Rightarrow> ((int \<times> (int \<times> int) \<times> drift) \<times> 'o) option"
  flood_update :: "'o \<Rightarrow> int \<Rightarrow> int \<Rightarrow> int \<Rightarrow> 'o"

subsection \<open>\<open>detect_and_deskew\<close> and \<open>_preprocess_for_decode\<close> (lines 74 to 106)\<close>

definition detect_and_deskew ::
  "('f, 'o) decode_env \<Rightarrow> string \<Rightarrow> string \<Rightarrow> bool \<Rightarrow> bool \<Rightarrow> fs \<Rightarrow>
   (error + int \<times> int) \<times> fs" where
  "detect_and_deskew env src_image temp_image dark auto_dewarp s =
     deskewer env src_image temp_image dark auto_dewarp s"

definition preprocess_for_decode :: "('f, 'o) decode_env \<Rightarrow> image \<Rightarrow> image" where
  "preprocess_for_decode env img0 =
     (let img = cvtColor env img0 COLOR_RGB2BGR;
          kernel = [[-1, -1, -1], [-1, 17 / 2, -1], [-1, -1, -1]];
          img = filter2D env img (-1) kernel;
          img = cvtColor env img COLOR_BGR2GRAY
      in img)"

subsection \<open>\<open>decode_iter\<close> (lines 109 to 133)\<close>

text \<open>
  Lines 110 to 121, up to the cell loop. The local variables that the rest of the
  function uses are collected in a record. \<open>deskew\<close> is the truth value of the
  argument, and \<^verbatim>\<open>should_preprocess |= a or b\<close> on truth values is a disjunction.
\<close>

record decode_ctx =
  ctx_should_preprocess :: bool
  ctx_tempdir :: "string option"
  ctx_color_img :: image
  ctx_ct :: cimb_decoder
  ctx_img :: image

definition decode_iter_setup ::
  "('f, 'o) decode_env \<Rightarrow> string \<Rightarrow> bool \<Rightarrow> bool \<Rightarrow> bool \<Rightarrow> bool \<Rightarrow> fs \<Rightarrow>
   (error + decode_ctx) \<times> fs" where
  "decode_iter_setup env src_image dark force_preprocess deskew auto_dewarp s =
     (let should_preprocess0 = force_preprocess;
          finish = (\<lambda>should_preprocess tempdir color_img.
            let ct = CimbDecoder env dark BITS_PER_SYMBOL BITS_PER_COLOR;
                img = (if should_preprocess then preprocess_for_decode env color_img
                       else color_img)
            in \<lparr>ctx_should_preprocess = should_preprocess, ctx_tempdir = tempdir,
                ctx_color_img = color_img, ctx_ct = ct, ctx_img = img\<rparr>)
      in if deskew then
           (case TemporaryDirectory (mkdtemp env) s of (tempdir, s1) \<Rightarrow>
              let temp_img = path_join tempdir (basename src_image)
              in (case detect_and_deskew env src_image temp_img dark auto_dewarp s1 of
                    (Inl e, s2) \<Rightarrow> (Inl e, s2)
                  | (Inr dims, s2) \<Rightarrow>
                      let should_preprocess =
                            (should_preprocess0 \<or>
                             (fst dims < TOTAL_SIZE \<or> snd dims < TOTAL_SIZE))
                      in (case Image_open s2 temp_img of
                            Inl e \<Rightarrow> (Inl e, s2)
                          | Inr color_img \<Rightarrow>
                              (Inr (finish should_preprocess (Some tempdir) color_img), s2))))
         else
           (case Image_open s src_image of
              Inl e \<Rightarrow> (Inl e, s)
            | Inr color_img \<Rightarrow> (Inr (finish should_preprocess0 None color_img), s)))"

text \<open>
  The loop of lines 126 to 129, run until the decode order ends, as the dictionary
  comprehension of \<open>decode\<close> does. The result is the list of the pairs \<open>(i, bits)\<close>
  yielded, or the exception that \<open>_decode_cell\<close> raised. The decode order is code of
  another module and need not end: the loop then has no result (\<open>None\<close>).
\<close>

partial_function (option) decode_iter_loop ::
  "('f, 'o) decode_env \<Rightarrow> cimb_decoder \<Rightarrow> image \<Rightarrow> image \<Rightarrow> 'o \<Rightarrow> (int \<times> int) list \<Rightarrow>
   (error + (int \<times> int) list) option" where
  "decode_iter_loop env ct img color_img decode_order yielded =
     (case flood_next env decode_order of
        None \<Rightarrow> Some (Inr yielded)
      | Some ((i, (x, y), drift), decode_order1) \<Rightarrow>
          (case decode_cell ct img color_img x y drift of
             Inl e \<Rightarrow> Some (Inl e)
           | Inr (best_bits, best_dx, best_dy, best_distance) \<Rightarrow>
               decode_iter_loop env ct img color_img
                 (flood_update env decode_order1 best_dx best_dy best_distance)
                 (yielded @ [(i, best_bits)])))"

text \<open>
  The whole generator. The clean-up of lines 131 to 133 stands after the loop; an
  exception leaves the function before it.
\<close>

definition decode_iter ::
  "('f, 'o) decode_env \<Rightarrow> string \<Rightarrow> bool \<Rightarrow> bool \<Rightarrow> bool \<Rightarrow> bool \<Rightarrow> fs \<Rightarrow>
   ((error + (int \<times> int) list) \<times> fs) option" where
  "decode_iter env src_image dark force_preprocess deskew auto_dewarp s =
     (case decode_iter_setup env src_image dark force_preprocess deskew auto_dewarp s of
        (Inl e, s1) \<Rightarrow> Some (Inl e, s1)
      | (Inr ctx, s1) \<Rightarrow>
          let cell_pos = cell_positions env CELL_SPACING CELL_DIMENSIONS CELLS_OFFSET;
              finder = AdjacentCellFinder env cell_pos CELL_DIMENSIONS;
              decode_order = FloodDecodeOrder env cell_pos finder
          in (case decode_iter_loop env (ctx_ct ctx) (ctx_img ctx) (ctx_color_img ctx)
                     decode_order [] of
               None \<Rightarrow> None
             | Some (Inl e) \<Rightarrow> Some (Inl e, s1)
             | Some (Inr yielded) \<Rightarrow>
                 Some (Inr yielded,
                       (case ctx_tempdir ctx of
                          None \<Rightarrow> s1
                        | Some tempdir \<Rightarrow> tempdir_cleanup tempdir s1))))"

subsection \<open>\<open>decode\<close> (lines 136 to 148)\<close>





subsection \<open>The collaborators of the encoder\<close>

text \<open>
  \<open>encode\<close> and \<open>encode_iter\<close> call the tile renderer \<^verbatim>\<open>CimbEncoder(...).encode(bits)\<close>,
  the bit reader \<^verbatim>\<open>bit_file\<close> (a reader with state \<open>'b\<close>, opened on a stream with
  \<open>bits_per_op\<close> and \<open>read_size\<close>; \<^verbatim>\<open>f.read()\<close> returns the next group of bits),
  \<open>cell_positions\<close> and \<open>interleave\<close>. They are parameters.
\<close>

record 'b encode_env =
  CimbEncoder_encode :: "bool \<Rightarrow> int \<Rightarrow> int \<Rightarrow> int \<Rightarrow> image"
  bit_file_open :: "stream \<Rightarrow> int \<Rightarrow> int \<Rightarrow> 'b"
  bit_file_read :: "'b \<Rightarrow> int \<times> 'b"
  enc_cell_positions :: "int \<Rightarrow> int \<Rightarrow> int \<Rightarrow> (int \<times> int) list"
  interleave :: "(int \<times> int) list \<Rightarrow> int \<Rightarrow> int \<Rightarrow> (int \<times> int) list"

subsection \<open>\<open>_get_image_template\<close> (lines 151 to 175)\<close>

definition get_image_template :: "fs \<Rightarrow> int \<Rightarrow> bool \<Rightarrow> error + image" where
  "get_image_template s width dark =
     (let color = (if dark then (0, 0, 0) else (255, 255, 255));
          img = Image_new (width, width) color;
          suffix = (if dark then ''dark'' else ''light'')
      in bind_err (Image_open s (''bitmap/anchor-'' @ suffix @ ''.png'')) (\<lambda>anchor.
         bind_err (Image_open s (''bitmap/anchor-secondary-'' @ suffix @ ''.png'')) (\<lambda>anchor_br.
         let aw = img_w anchor;
             ah = img_h anchor;
             img = paste img anchor (0, 0);
             img = paste img anchor (0, width - ah);
             img = paste img anchor (width - aw, 0);
             img = paste img anchor_br (width - aw, width - ah)
         in bind_err (Image_open s (''bitmap/guide-horizontal-'' @ suffix @ ''.png''))
              (\<lambda>horizontal_guide.
         let gw = img_w horizontal_guide;
             img = paste img horizontal_guide (width div 2 - gw div 2, 2);
             img = paste img horizontal_guide (width div 2 - gw div 2, width - 4);
             img = paste img horizontal_guide (width div 2 - gw - gw div 2, width - 4);
             img = paste img horizontal_guide (width div 2 + gw - gw div 2, width - 4)
         in bind_err (Image_open s (''bitmap/guide-vertical-'' @ suffix @ ''.png''))
              (\<lambda>vertical_guide.
         let gh = img_h vertical_guide;
             img = paste img vertical_guide (2, width div 2 - gw div 2);
             img = paste img vertical_guide (width - 4, width div 2 - gw div 2)
         in Inr img)))))"

subsection \<open>\<open>encode_iter\<close> and \<open>encode\<close> (lines 178 to 198)\<close>

text \<open>The loop of lines 187 to 189: one read per cell, in the interleaved order.\<close>

fun encode_iter_loop ::
  "'b encode_env \<Rightarrow> (int \<times> int) list \<Rightarrow> 'b \<Rightarrow> (int \<times> int \<times> int) list" where
  "encode_iter_loop env [] f = []"
| "encode_iter_loop env (c # cs) f =
     (case c of (x, y) \<Rightarrow>
      case bit_file_read env f of (bits, f1) \<Rightarrow> (bits, x, y) # encode_iter_loop env cs f1)"

definition encode_iter ::
  "'b encode_env \<Rightarrow> string \<Rightarrow> int \<Rightarrow> bool \<Rightarrow> error + (int \<times> int \<times> int) list" where
  "encode_iter env src_data ecc fountain =
     bind_err (encode_iter_instream src_data ecc fountain) (\<lambda>(rss, read_size).
       let f = bit_file_open env rss BITS_PER_OP read_size;
           cells = enc_cell_positions env CELL_SPACING CELL_DIMENSIONS CELLS_OFFSET
       in Inr (encode_iter_loop env
                 (interleave env cells INTERLEAVE_BLOCKS INTERLEAVE_PARTITIONS) f))"

text \<open>The loop of lines 195 to 197.\<close>

fun encode_paste ::
  "'b encode_env \<Rightarrow> bool \<Rightarrow> (int \<times> int \<times> int) list \<Rightarrow> image \<Rightarrow> image" where
  "encode_paste env dark [] img = img"
| "encode_paste env dark (item # items) img =
     (case item of (bits, x, y) \<Rightarrow>
        let encoded = CimbEncoder_encode env dark BITS_PER_SYMBOL BITS_PER_COLOR bits
        in encode_paste env dark items (paste img encoded (x, y)))"

text \<open>
  \<open>encode\<close>: the image of lines 193 to 197 is saved under \<open>dst_image\<close> (line 198).
  \<open>encode_image\<close> is the image, \<open>encode\<close> the file system afterwards.
  \<^verbatim>\<open>img.save\<close> raises in the code when the extension of \<open>dst_image\<close> names no
  image format or the path cannot be written; the model describes the runs in which
  it returns, and the file then holds the image as it is.
\<close>

definition encode_image ::
  "'b encode_env \<Rightarrow> fs \<Rightarrow> string \<Rightarrow> bool \<Rightarrow> int \<Rightarrow> bool \<Rightarrow> error + image" where
  "encode_image env s src_data dark ecc fountain =
     bind_err (get_image_template s TOTAL_SIZE dark) (\<lambda>img.
     bind_err (encode_iter env src_data ecc fountain) (\<lambda>items.
       Inr (encode_paste env dark items img)))"

definition encode ::
  "'b encode_env \<Rightarrow> fs \<Rightarrow> string \<Rightarrow> string \<Rightarrow> bool \<Rightarrow> int \<Rightarrow> bool \<Rightarrow> error + fs" where
  "encode env s src_data dst_image dark ecc fountain =
     bind_err (encode_image env s src_data dark ecc fountain) (\<lambda>img.
       Inr (s\<lparr>fs_files := (fs_files s)(dst_image \<mapsto> img)\<rparr>))"

subsection \<open>The bit reader, from the specification\<close>







subsection \<open>Vocabulary for the claims about \<open>_decode_cell\<close>\<close>

text \<open>
  The following definitions follow the wording of the specification, not the source;
  the theorems below compare them with \<open>decode_cell\<close>.

  \<open>cell_patch img px py\<close> is the \<open>CELL_SIZE \<times> CELL_SIZE\<close> patch of \<open>img\<close> whose
  upper left corner is \<open>(px, py)\<close>. \<open>classify_at\<close> is the symbol classifier's answer
  \<open>(bits, distance)\<close> for the patch at \<open>(x + D.x + dx, y + D.y + dy)\<close>, and
  \<open>distance_at\<close> its distance.
\<close>

definition cell_patch :: "image \<Rightarrow> int \<Rightarrow> int \<Rightarrow> image" where
  "cell_patch img px py = crop img (px, py, px + CELL_SIZE, py + CELL_SIZE)"

definition classify_at ::
  "cimb_decoder \<Rightarrow> image \<Rightarrow> int \<Rightarrow> int \<Rightarrow> drift \<Rightarrow> int \<times> int \<Rightarrow> int \<times> int" where
  "classify_at ct img x y D p =
     decode_symbol ct (cell_patch img (x + drift_x D + fst p) (y + drift_y D + snd p))"

definition distance_at ::
  "cimb_decoder \<Rightarrow> image \<Rightarrow> int \<Rightarrow> int \<Rightarrow> drift \<Rightarrow> int \<times> int \<Rightarrow> int" where
  "distance_at ct img x y D p = snd (classify_at ct img x y D p)"

text \<open>
  The offsets that a search "in order, stopping as soon as a distance is below 8" looks
  at: the pairs up to and including the first one whose distance is below 8, or all of
  them when there is none.
\<close>

fun searched :: "(int \<times> int \<Rightarrow> int) \<Rightarrow> (int \<times> int) list \<Rightarrow> (int \<times> int) list" where
  "searched d [] = []"
| "searched d (p # ps) = (if d p < 8 then [p] else p # searched d ps)"

text \<open>
  The packing of the two channels as the specification writes it:
  \<open>(color_id << BITS_PER_SYMBOL) | symbol_id\<close>.
\<close>

definition packed_bits :: "int \<Rightarrow> int \<Rightarrow> int" where
  "packed_bits color_id symbol_id = push_bit (nat BITS_PER_SYMBOL) color_id OR symbol_id"

subsection \<open>Vocabulary for the round trip\<close>











subsection \<open>Concrete inputs for evaluation\<close>

text \<open>
  A decoder whose classifiers answer the same for every patch, a decoder whose colour
  classifier reports the size of the patch it is given (100 times the width plus the
  height), a black page, and a drift hint that searches the nominal position only.
\<close>

definition fixed_decoder :: "int \<Rightarrow> int \<Rightarrow> int \<Rightarrow> cimb_decoder" where
  "fixed_decoder s d c = \<lparr>decode_symbol = (\<lambda>cell. (s, d)), decode_color = (\<lambda>cell. c)\<rparr>"

definition size_probe :: cimb_decoder where
  "size_probe = \<lparr>decode_symbol = (\<lambda>cell. (0, 0)),
                  decode_color = (\<lambda>cell. 100 * img_w cell + img_h cell)\<rparr>"

definition blank_page :: image where
  "blank_page = Image_new (TOTAL_SIZE, TOTAL_SIZE) (0, 0, 0)"

definition no_drift :: drift where
  "no_drift = \<lparr>drift_x = 0, drift_y = 0, drift_pairs = [(0, 0)]\<rparr>"

text \<open>
  A grey page whose pixel at \<open>(i, j)\<close> is \<open>(i - 10)\<^sup>2 + j\<close>, a decoder whose symbol
  classifier reads the upper left pixel \<open>v\<close> of its patch and answers
  \<open>(v mod 16, v)\<close> and whose colour classifier always answers 32 (colour 2, shifted by
  four bits), and a drift hint with accumulated offset \<open>(1, 0)\<close> that searches five
  offsets to the right.
\<close>

definition gradient_page :: image where
  "gradient_page = \<lparr>img_mode = ModeL, img_w = TOTAL_SIZE, img_h = TOTAL_SIZE,
                     img_px = (\<lambda>i j. L ((i - 10) * (i - 10) + j))\<rparr>"

definition corner_reader :: cimb_decoder where
  "corner_reader =
     \<lparr>decode_symbol = (\<lambda>cell. case img_px cell 0 0 of
                                  L v \<Rightarrow> (v mod 16, v) | RGB r g b \<Rightarrow> (0, r)),
      decode_color = (\<lambda>cell. 32)\<rparr>"

definition sweep :: drift where
  "sweep = \<lparr>drift_x = 1, drift_y = 0,
             drift_pairs = [(0, 0), (1, 0), (2, 0), (3, 0), (4, 0)]\<rparr>"

text \<open>
  A file system that holds the four bitmaps of the dark palette (a \<open>30 \<times> 30\<close> anchor,
  a \<open>30 \<times> 30\<close> secondary anchor, a \<open>32 \<times> 2\<close> horizontal and a \<open>2 \<times> 32\<close> vertical
  guide), and an encoder environment with two cells, a bit reader that counts upwards
  from 0, and a tile renderer that paints an \<open>8 \<times> 8\<close> tile in one gray level.
\<close>

definition flat_image :: "int \<Rightarrow> int \<Rightarrow> pixel \<Rightarrow> image" where
  "flat_image w h c = \<lparr>img_mode = ModeRGB, img_w = w, img_h = h, img_px = (\<lambda>i j. c)\<rparr>"

definition asset_fs :: fs where
  "asset_fs =
     \<lparr>fs_files =
        [''bitmap/anchor-dark.png'' \<mapsto> flat_image 30 30 (RGB 255 255 255),
         ''bitmap/anchor-secondary-dark.png'' \<mapsto> flat_image 30 30 (RGB 255 0 0),
         ''bitmap/guide-horizontal-dark.png'' \<mapsto> flat_image 32 2 (RGB 255 255 255),
         ''bitmap/guide-vertical-dark.png'' \<mapsto> flat_image 2 32 (RGB 255 255 255)],
      fs_tempdirs = []\<rparr>"

definition toy_encode_env :: "nat encode_env" where
  "toy_encode_env =
     \<lparr>CimbEncoder_encode = (\<lambda>dark symbol_bits color_bits bits.
        flat_image 8 8 (RGB bits bits bits)),
      bit_file_open = (\<lambda>stream bits_per_op read_size. 0),
      bit_file_read = (\<lambda>n. (int n, Suc n)),
      enc_cell_positions = (\<lambda>spacing dimensions offset.
        [(offset, offset), (offset + spacing, offset)]),
      interleave = (\<lambda>cells blocks partitions. rev cells)\<rparr>"

text \<open>
  A decoder environment for evaluation: the temporary directory is \<open>/tmp/tmp0\<close>; the
  deskewer either raises or writes a black image of the given dimensions to the
  temporary path and reports those dimensions; the only cell is at
  \<open>(offset, offset)\<close>, visited with \<open>no_drift\<close>; grey conversion changes the mode and
  the filter is the identity. \<open>page_fs\<close> holds the source image \<open>page.png\<close>.
  \<open>tempdirs_after\<close> keeps, of a result and the file system after it, the result and
  the temporary directories that still exist.
\<close>

definition toy_decode_env ::
  "(error + int \<times> int) \<Rightarrow> cimb_decoder \<Rightarrow> (unit, int \<times> (int \<times> int) list) decode_env" where
  "toy_decode_env deskewed ct =
     \<lparr>mkdtemp = (\<lambda>s. ''/tmp/tmp0''),
      deskewer = (\<lambda>src_image temp_image dark auto_dewarp s.
        (deskewed,
         case deskewed of
           Inl e \<Rightarrow> s
         | Inr dims \<Rightarrow>
             s\<lparr>fs_files := (fs_files s)
                  (temp_image \<mapsto> flat_image (fst dims) (snd dims) (RGB 0 0 0))\<rparr>)),
      CimbDecoder = (\<lambda>dark symbol_bits color_bits. ct),
      cvtColor = (\<lambda>img code. case code of
                     COLOR_RGB2BGR \<Rightarrow> img
                   | COLOR_BGR2GRAY \<Rightarrow> img\<lparr>img_mode := ModeL\<rparr>),
      filter2D = (\<lambda>img ddepth kernel. img),
      cell_positions = (\<lambda>spacing dimensions offset. [(offset, offset)]),
      AdjacentCellFinder = (\<lambda>cells dimensions. ()),
      FloodDecodeOrder = (\<lambda>cells finder. (0, cells)),
      flood_next = (\<lambda>order. case snd order of
                      [] \<Rightarrow> None
                    | c # cs \<Rightarrow> Some ((fst order, c, no_drift), (fst order + 1, cs))),
      flood_update = (\<lambda>order best_dx best_dy best_distance. order)\<rparr>"

definition page_fs :: fs where
  "page_fs = \<lparr>fs_files = [''page.png'' \<mapsto> blank_page], fs_tempdirs = []\<rparr>"

definition tempdirs_after :: "('a \<times> fs) option \<Rightarrow> ('a \<times> string list) option" where
  "tempdirs_after r = map_option (\<lambda>(v, s). (v, fs_tempdirs s)) r"







text \<open>
  A decoder that reports which image it was handed: the symbol depends on the mode of
  the patch it classifies, and so does the colour.
\<close>

definition mode_probe :: cimb_decoder where
  "mode_probe =
     \<lparr>decode_symbol = (\<lambda>cell. case img_mode cell of ModeL \<Rightarrow> (3, 0) | ModeRGB \<Rightarrow> (7, 0)),
      decode_color = (\<lambda>cell. case img_mode cell of ModeRGB \<Rightarrow> 32 | ModeL \<Rightarrow> 16)\<rparr>"


section \<open>Properties of the cell decoder\<close>

subsection \<open>The search loop\<close>

lemma cell_patch_size:
  "img_w (cell_patch img px py) = CELL_SIZE \<and> img_h (cell_patch img px py) = CELL_SIZE"
  by (simp add: cell_patch_def crop_def)

lemma decode_cell_loop_Nil: "decode_cell_loop ct img x y D [] st = st"
  by simp

lemma decode_cell_loop_step:
  "decode_cell_loop ct img x y D (p # rest) (bd, best) =
     (let d = distance_at ct img x y D p;
          bd1 = min d bd;
          best1 = (if d = bd1 then Some (fst (classify_at ct img x y D p), fst p, snd p)
                   else best)
      in if d < 8 then (bd1, best1) else decode_cell_loop ct img x y D rest (bd1, best1))"
  by (cases p)
    (simp add: distance_at_def classify_at_def cell_patch_def Let_def split: prod.splits)

lemma searched_subset: "set (searched d ps) \<subseteq> set ps"
  by (induction ps) auto





lemma searched_all_far:
  "(\<forall>p\<in>set (searched d ps). (1000::int) < d p) = (\<forall>p\<in>set ps. 1000 < d p)"
  by (induction ps) auto

lemma searched_some_near:
  "(\<exists>p\<in>set (searched d ps). d p \<le> (1000::int)) = (\<exists>p\<in>set ps. d p \<le> 1000)"
proof -
  have "(\<not> (\<forall>p\<in>set (searched d ps). (1000::int) < d p)) = (\<not> (\<forall>p\<in>set ps. 1000 < d p))"
    by (simp only: searched_all_far)
  then show ?thesis
    by (simp add: not_less)
qed


text \<open>
  What the loop leaves behind, from any starting state: the running minimum never
  grows and bounds every distance looked at; and either nothing was assigned (every
  distance looked at was above the starting minimum) or the three variables belong to
  a pair that was looked at and whose distance is the final minimum.
\<close>

lemma decode_cell_loop_result:
  assumes "decode_cell_loop ct img x y D ps (bd, best) = (bd', best')"
  shows "bd' \<le> bd \<and>
    (\<forall>p\<in>set (searched (distance_at ct img x y D) ps). bd' \<le> distance_at ct img x y D p) \<and>
    ((best' = best \<and> bd' = bd \<and>
        (\<forall>p\<in>set (searched (distance_at ct img x y D) ps). bd < distance_at ct img x y D p))
     \<or> (\<exists>p\<in>set (searched (distance_at ct img x y D) ps).
           best' = Some (fst (classify_at ct img x y D p), fst p, snd p) \<and>
           distance_at ct img x y D p = bd'))"
  using assms
proof (induction ps arbitrary: bd best)
  case Nil
  then show ?case by simp
next
  case (Cons p ps)
  let ?d = "distance_at ct img x y D p"
  show ?case
  proof (cases "?d < 8")
    case True
    with Cons.prems show ?thesis
      by (auto simp: decode_cell_loop_step Let_def min_def
          simp del: decode_cell_loop.simps split: if_splits)
  next
    case False
    let ?bd1 = "min ?d bd"
    let ?best1 = "if ?d = ?bd1 then Some (fst (classify_at ct img x y D p), fst p, snd p)
                  else best"
    from Cons.prems False
    have run: "decode_cell_loop ct img x y D ps (?bd1, ?best1) = (bd', best')"
      by (simp add: decode_cell_loop_step Let_def del: decode_cell_loop.simps)
    from Cons.IH [OF run] False show ?thesis
      by (auto simp: min_def split: if_splits)
  qed
qed

lemma decode_cell_Inl:
  "(decode_cell ct img color_img x y D = Inl e) =
   (e = UnboundLocalError \<and> (\<forall>p\<in>set (drift_pairs D). 1000 < distance_at ct img x y D p))"
proof -
  obtain bd best where loop:
    "decode_cell_loop ct img x y D (drift_pairs D) (1000, None) = (bd, best)"
    by (cases "decode_cell_loop ct img x y D (drift_pairs D) (1000, None)")
  from decode_cell_loop_result [OF loop] have
    "(best = None) = (\<forall>p\<in>set (searched (distance_at ct img x y D) (drift_pairs D)).
        1000 < distance_at ct img x y D p)"
    by force
  then show ?thesis
    by (auto simp: decode_cell_def loop searched_all_far split: option.splits)
qed

lemma decode_cell_Inr:
  assumes "decode_cell ct img color_img x y D = Inr (bits, dx, dy, distance)"
  shows "(dx, dy) \<in> set (searched (distance_at ct img x y D) (drift_pairs D)) \<and>
         distance = distance_at ct img x y D (dx, dy) \<and>
         (\<forall>p\<in>set (searched (distance_at ct img x y D) (drift_pairs D)).
            distance \<le> distance_at ct img x y D p) \<and>
         bits = fst (classify_at ct img x y D (dx, dy)) +
                decode_color ct (best_cell color_img x y D dx dy)"
proof -
  obtain bd best where loop:
    "decode_cell_loop ct img x y D (drift_pairs D) (1000, None) = (bd, best)"
    by (cases "decode_cell_loop ct img x y D (drift_pairs D) (1000, None)")
  from assms loop
  have best: "best = Some (bits - decode_color ct (best_cell color_img x y D dx dy), dx, dy)"
    and bd: "bd = distance"
    by (auto simp: decode_cell_def split: option.splits)
  from decode_cell_loop_result [OF loop] best bd show ?thesis
    by auto
qed

subsection \<open>Evaluation on the concrete inputs\<close>

lemma sweep_fields:
  "drift_x sweep = 1" "drift_y sweep = 0"
  "drift_pairs sweep = [(0, 0), (1, 0), (2, 0), (3, 0), (4, 0)]"
  by (simp_all add: sweep_def)

lemma no_drift_fields:
  "drift_x no_drift = 0" "drift_y no_drift = 0" "drift_pairs no_drift = [(0, 0)]"
  by (simp_all add: no_drift_def)

lemma fixed_decoder_fields:
  "decode_symbol (fixed_decoder s d c) cell = (s, d)"
  "decode_color (fixed_decoder s d c) cell = c"
  by (simp_all add: fixed_decoder_def)

lemma corner_reader_color: "decode_color corner_reader cell = 32"
  by (simp add: corner_reader_def)

lemma classify_fixed: "classify_at (fixed_decoder s d c) img x y D p = (s, d)"
  by (simp add: classify_at_def fixed_decoder_fields)

lemma distance_fixed: "distance_at (fixed_decoder s d c) img x y D p = d"
  by (simp add: distance_at_def classify_fixed)

lemma classify_sweep:
  "classify_at corner_reader gradient_page 4 0 sweep (dx, 0) =
     (if 0 \<le> 5 + dx \<and> 5 + dx < 1024
      then ((dx - 5) * (dx - 5) mod 16, (dx - 5) * (dx - 5)) else (0, 0))"
  by (auto simp: classify_at_def cell_patch_def crop_def corner_reader_def
      gradient_page_def sweep_def inside_def TOTAL_SIZE_def zero_pixel_def algebra_simps)

lemma distance_sweep:
  "distance_at corner_reader gradient_page 4 0 sweep (dx, 0) =
     (if 0 \<le> 5 + dx \<and> 5 + dx < 1024 then (dx - 5) * (dx - 5) else 0)"
  by (simp add: distance_at_def classify_sweep)


lemma loop_sweep:
  "decode_cell_loop corner_reader gradient_page 4 0 sweep (drift_pairs sweep) (1000, None) =
     (4, Some (4, 3, 0))"
  by (simp add: sweep_fields(3) decode_cell_loop_step Let_def distance_sweep classify_sweep
      del: decode_cell_loop.simps)

lemma run_sweep:
  "decode_cell corner_reader gradient_page gradient_page 4 0 sweep = Inr (36, 3, 0, 4)"
  by (simp add: decode_cell_def loop_sweep corner_reader_color)

lemma run_fixed:
  "decode_cell (fixed_decoder s d c) img color_img x y no_drift =
     (if d \<le> 1000 then Inr (s + c, 0, 0, d) else Inl UnboundLocalError)"
  by (simp add: decode_cell_def no_drift_fields decode_cell_loop_step Let_def distance_fixed
      classify_fixed fixed_decoder_fields min_def decode_cell_loop_Nil
      del: decode_cell_loop.simps)

subsection \<open>The claims about \<open>_decode_cell\<close>\<close>



text \<open>
  Claim C10. \<open>_decode_cell\<close> returns a result exactly when some pair of
  \<open>drift.pairs\<close> has a symbol distance of at most 1000, the starting value of
  \<open>best_distance\<close>. When every pair's distance is above 1000, and in particular when
  \<open>drift.pairs\<close> is empty, \<open>best_bits\<close>, \<open>best_dx\<close> and \<open>best_dy\<close> are never
  assigned and the function raises \<open>UnboundLocalError\<close>; it raises nothing else.
\<close>

theorem decode_cell_unbound_local:
  "((decode_cell ct img color_img x y D = Inl UnboundLocalError) =
      (\<forall>p\<in>set (drift_pairs D). 1000 < distance_at ct img x y D p)) \<and>
   ((\<exists>r. decode_cell ct img color_img x y D = Inr r) =
      (\<exists>p\<in>set (drift_pairs D). distance_at ct img x y D p \<le> 1000)) \<and>
   (drift_pairs D = [] \<longrightarrow> decode_cell ct img color_img x y D = Inl UnboundLocalError) \<and>
   (\<forall>e. decode_cell ct img color_img x y D = Inl e \<longrightarrow> e = UnboundLocalError)"
proof -
  let ?far = "\<forall>p\<in>set (drift_pairs D). 1000 < distance_at ct img x y D p"
  have a: "(decode_cell ct img color_img x y D = Inl UnboundLocalError) = ?far"
    by (simp add: decode_cell_Inl)
  have "(\<exists>r. decode_cell ct img color_img x y D = Inr r) =
      (decode_cell ct img color_img x y D \<noteq> Inl UnboundLocalError)"
  proof (cases "decode_cell ct img color_img x y D")
    case (Inl e)
    with decode_cell_Inl [of ct img color_img x y D e] have "e = UnboundLocalError"
      by simp
    with Inl show ?thesis
      by simp
  next
    case (Inr r)
    then show ?thesis
      by (cases r) auto
  qed
  also have "\<dots> = (\<not> ?far)"
    by (simp only: a)
  also have "\<dots> = (\<exists>p\<in>set (drift_pairs D). distance_at ct img x y D p \<le> 1000)"
    by (simp add: not_less)
  finally have b: "(\<exists>r. decode_cell ct img color_img x y D = Inr r) =
      (\<exists>p\<in>set (drift_pairs D). distance_at ct img x y D p \<le> 1000)" .
  have c: "drift_pairs D = [] \<longrightarrow> decode_cell ct img color_img x y D = Inl UnboundLocalError"
    by (simp add: decode_cell_Inl)
  have d: "\<forall>e. decode_cell ct img color_img x y D = Inl e \<longrightarrow> e = UnboundLocalError"
    by (simp add: decode_cell_Inl)
  from a b c d show ?thesis
    by (intro conjI)
qed

theorem decode_cell_unbound_local_witness:
  "decode_cell (fixed_decoder 3 1001 0) blank_page blank_page 8 8 no_drift =
     Inl UnboundLocalError \<and>
   decode_cell (fixed_decoder 3 0 0) blank_page blank_page 8 8
     (no_drift\<lparr>drift_pairs := []\<rparr>) = Inl UnboundLocalError \<and>
   (\<exists>r. decode_cell (fixed_decoder 3 1000 0) blank_page blank_page 8 8 no_drift = Inr r)"
  using decode_cell_unbound_local [of "fixed_decoder 3 1001 0" blank_page blank_page 8 8 no_drift]
    decode_cell_unbound_local [of "fixed_decoder 3 0 0" blank_page blank_page 8 8
      "no_drift\<lparr>drift_pairs := []\<rparr>"]
    decode_cell_unbound_local [of "fixed_decoder 3 1000 0" blank_page blank_page 8 8 no_drift]
  by (simp add: distance_fixed no_drift_fields)

lemma pack_disjoint:
  assumes "0 \<le> s" and "s < 2 ^ n"
  shows "s + push_bit n c = push_bit n c OR (s::int)"
    and "take_bit n (s + push_bit n c) = s"
    and "drop_bit n (s + push_bit n c) = c"
proof -
  from assms have ts: "take_bit n s = s"
    by (simp add: take_bit_int_eq_self)
  have "\<not> bit (push_bit n c) k \<or> \<not> bit s k" for k
  proof (cases "k < n")
    case True
    then show ?thesis
      by (simp add: bit_push_bit_iff)
  next
    case False
    have "bit s k = bit (take_bit n s) k"
      by (simp add: ts)
    with False show ?thesis
      by (simp add: bit_take_bit_iff)
  qed
  then have "push_bit n c + s = push_bit n c OR s"
    by (rule disjunctive_add)
  then show "s + push_bit n c = push_bit n c OR (s::int)"
    by (simp add: add.commute)
  from assms show "take_bit n (s + push_bit n c) = s"
    by (simp add: take_bit_eq_mod push_bit_eq_mult)
  from assms show "drop_bit n (s + push_bit n c) = c"
    by (simp add: drop_bit_eq_div push_bit_eq_mult)
qed

text \<open>
  Claim C2, as the code has it. \<open>_decode_cell\<close> returns the symbol classifier's
  bits plus the value \<open>decode_color\<close> returns, and shifts nothing itself. When the
  symbol bits lie in \<open>[0, 2 ^ BITS_PER_SYMBOL)\<close> and \<open>decode_color\<close> returns the colour
  id already shifted left by \<open>BITS_PER_SYMBOL\<close>, that sum is
  \<open>(color_id << BITS_PER_SYMBOL) | symbol_id\<close>: its low \<open>BITS_PER_SYMBOL\<close> bits are the
  symbol id and the bits above them the colour id.
\<close>

theorem decode_cell_packs_shifted_color:
  assumes "decode_cell ct img color_img x y D = Inr (bits, dx, dy, distance)"
    and "classify_at ct img x y D (dx, dy) = (symbol_id, d)"
    and "0 \<le> symbol_id" and "symbol_id < 2 ^ nat BITS_PER_SYMBOL"
    and "decode_color ct (best_cell color_img x y D dx dy) =
           push_bit (nat BITS_PER_SYMBOL) color_id"
  shows "bits = symbol_id + decode_color ct (best_cell color_img x y D dx dy) \<and>
         bits = packed_bits color_id symbol_id \<and>
         take_bit (nat BITS_PER_SYMBOL) bits = symbol_id \<and>
         drop_bit (nat BITS_PER_SYMBOL) bits = color_id"
proof -
  from decode_cell_Inr [OF assms(1)] assms(2)
  have sum: "bits = symbol_id + decode_color ct (best_cell color_img x y D dx dy)"
    by simp
  then have bits: "bits = symbol_id + push_bit (nat BITS_PER_SYMBOL) color_id"
    by (simp only: assms(5))
  note p = pack_disjoint [OF assms(3,4), of color_id]
  have a: "bits = packed_bits color_id symbol_id"
    unfolding packed_bits_def bits by (rule p(1))
  have b: "take_bit (nat BITS_PER_SYMBOL) bits = symbol_id"
    unfolding bits by (rule p(2))
  have c: "drop_bit (nat BITS_PER_SYMBOL) bits = color_id"
    unfolding bits by (rule p(3))
  from sum a b c show ?thesis
    by (intro conjI)
qed

theorem decode_cell_packs_shifted_color_witness:
  "decode_cell corner_reader gradient_page gradient_page 4 0 sweep = Inr (36, 3, 0, 4) \<and>
   classify_at corner_reader gradient_page 4 0 sweep (3, 0) = (4, 4) \<and>
   decode_color corner_reader (best_cell gradient_page 4 0 sweep 3 0) = push_bit 4 2 \<and>
   packed_bits 2 4 = 36 \<and> take_bit 4 (36::int) = 4 \<and> drop_bit 4 (36::int) = 2"
proof -
  have run: "decode_cell corner_reader gradient_page gradient_page 4 0 sweep =
      Inr (36, 3, 0, 4)"
    by (rule run_sweep)
  have sym: "classify_at corner_reader gradient_page 4 0 sweep (3, 0) = (4, 4)"
    by (simp add: classify_sweep)
  have col: "decode_color corner_reader (best_cell gradient_page 4 0 sweep 3 0) =
      push_bit (nat BITS_PER_SYMBOL) 2"
    by (simp add: corner_reader_color BITS_PER_SYMBOL_def)
  have lo: "(0::int) \<le> 4" and hi: "(4::int) < 2 ^ nat BITS_PER_SYMBOL"
    by (simp_all add: BITS_PER_SYMBOL_def)
  from decode_cell_packs_shifted_color [OF run sym lo hi col] run sym col show ?thesis
    by (simp add: BITS_PER_SYMBOL_def)
qed

text \<open>
  The claim as the specification words it fails for a colour classifier that returns
  the plain colour id: with symbol id 3 and colour id 2 the function returns
  \<open>3 + 2 = 5\<close>, while \<open>(2 << 4) | 3 = 35\<close>.
\<close>

theorem decode_cell_plain_color_counterexample:
  "classify_at (fixed_decoder 3 0 2) blank_page 8 8 no_drift (0, 0) = (3, 0) \<and>
   decode_color (fixed_decoder 3 0 2) (best_cell blank_page 8 8 no_drift 0 0) = 2 \<and>
   decode_cell (fixed_decoder 3 0 2) blank_page blank_page 8 8 no_drift = Inr (5, 0, 0, 0) \<and>
   packed_bits 2 3 = 35"
  by (simp add: classify_fixed fixed_decoder_fields run_fixed packed_bits_def
      BITS_PER_SYMBOL_def)

subsection \<open>The colour patch\<close>

lemma best_cell_size:
  "img_w (best_cell color_img x y D dx dy) = CELL_SIZE - 3 \<and>
   img_h (best_cell color_img x y D dx dy) = CELL_SIZE - 3"
  by (simp add: best_cell_def crop_def Let_def)

lemma best_cell_pixels:
  "img_px (best_cell color_img x y D dx dy) i j =
     (if inside color_img (x + drift_x D + dx + 1 + i) (y + drift_y D + dy + 1 + j)
      then img_px color_img (x + drift_x D + dx + 1 + i) (y + drift_y D + dy + 1 + j)
      else zero_pixel (img_mode color_img))"
  by (simp add: best_cell_def crop_def Let_def)

text \<open>
  Claim C3, evaluated on the code. The box of line 95 runs from \<open>testX + 1\<close> to
  \<open>testX + CELL_SIZE - 2\<close> (exclusive), so the patch handed to the colour classifier is
  \<open>CELL_SIZE - 3 = 5\<close> pixels wide and high: the cell inset by one pixel on the left
  and on top and by two pixels on the right and at the bottom, not the
  \<open>6 \<times> 6\<close> square of a one-pixel inset. A colour classifier that reports the size of
  its patch as \<open>100 * width + height\<close> answers 505.
\<close>

theorem color_patch_is_five_by_five:
  "img_w (best_cell color_img x y D dx dy) = 5 \<and>
   img_h (best_cell color_img x y D dx dy) = 5 \<and>
   decode_cell size_probe blank_page blank_page 8 8 no_drift = Inr (505, 0, 0, 0)"
proof -
  have "decode_cell_loop size_probe blank_page 8 8 no_drift (drift_pairs no_drift) (1000, None) =
      (0, Some (0, 0, 0))"
    by (simp add: no_drift_fields size_probe_def)
  then have "decode_cell size_probe blank_page blank_page 8 8 no_drift = Inr (505, 0, 0, 0)"
    by (simp add: decode_cell_def best_cell_size [unfolded CELL_SIZE_def] size_probe_def)
  then show ?thesis
    by (simp add: best_cell_size [unfolded CELL_SIZE_def])
qed

section \<open>Properties of the byte pipelines\<close>

lemma py_int_of_int: "py_int (of_int n) = n"
  by (simp add: py_int_def)

lemma fountain_chunk_size_default:
  "fountain_chunk_size ecc BITS_PER_OP FOUNTAIN_BLOCKS = Inr (6 * (155 - ecc))"
proof -
  have "(of_int ((155 - ecc) * 6 * 10) :: rat) / of_int 10 = of_int (6 * (155 - ecc))"
    by simp
  then show ?thesis
    by (simp add: fountain_chunk_size_def truediv_def bind_err_def cimbar_constants
        py_int_of_int del: of_int_mult of_int_diff)
qed

lemma fountain_chunk_size_floor:
  "fountain_chunk_size ecc BITS_PER_OP FOUNTAIN_BLOCKS =
     Inr \<lfloor>(of_int ((155 - ecc) * BITS_PER_OP * 10) :: rat) / of_int FOUNTAIN_BLOCKS\<rfloor>"
proof -
  have "(of_int ((155 - ecc) * 6 * 10) :: rat) / of_int 10 = of_int (6 * (155 - ecc))"
    by simp
  then have "\<lfloor>(of_int ((155 - ecc) * 6 * 10) :: rat) / of_int 10\<rfloor> = 6 * (155 - ecc)"
    by (simp only: floor_of_int)
  then show ?thesis
    by (simp add: fountain_chunk_size_default) (simp add: cimbar_constants)
qed

lemma encode_iter_instream_eq:
  "encode_iter_instream src_data ecc fountain =
     Inr (let fes = (if fountain then fountain_encoder_stream src_data (6 * (155 - ecc))
                     else open_rb src_data)
          in (if ecc \<noteq> 0 then reed_solomon_stream fes ecc None else fes,
              if fountain then 6 * (155 - ecc) else 16384))"
  by (simp add: encode_iter_instream_def fountain_chunk_size_default bind_err_def Let_def)

lemma decode_outstream_eq:
  "decode_outstream outfile ecc fountain =
     Inr (let fds = (if fountain then fountain_decoder_stream outfile (6 * (155 - ecc))
                     else open_wb outfile)
          in if ecc \<noteq> 0 then reed_solomon_stream fds ecc (Some ''write'') else fds)"
  by (simp add: decode_outstream_def fountain_chunk_size_default bind_err_def Let_def)

text \<open>
  Claim C7. For \<open>0 \<le> ecc \<le> 155\<close>, \<open>_fountain_chunk_size(ecc)\<close> is
  \<open>floor((155 - ecc) * BITS_PER_OP * 10 / FOUNTAIN_BLOCKS)\<close>, which is
  \<open>6 * (155 - ecc)\<close>, and 750 for the default \<open>ECC\<close>; the fountain encoder stream of
  \<open>encode_iter\<close> (and its read size) and the fountain decoder stream of \<open>decode\<close> are
  built with that same value.
\<close>

theorem fountain_chunk_size_value:
  assumes "0 \<le> ecc" and "ecc \<le> 155"
  shows "fountain_chunk_size ecc BITS_PER_OP FOUNTAIN_BLOCKS =
           Inr \<lfloor>(of_int ((155 - ecc) * BITS_PER_OP * 10) :: rat) / of_int FOUNTAIN_BLOCKS\<rfloor> \<and>
         fountain_chunk_size ecc BITS_PER_OP FOUNTAIN_BLOCKS = Inr (6 * (155 - ecc)) \<and>
         fountain_chunk_size ECC BITS_PER_OP FOUNTAIN_BLOCKS = Inr 750 \<and>
         encode_iter_instream src_data ecc True =
           Inr (if ecc \<noteq> 0
                then reed_solomon_stream
                       (fountain_encoder_stream src_data (6 * (155 - ecc))) ecc None
                else fountain_encoder_stream src_data (6 * (155 - ecc)),
                6 * (155 - ecc)) \<and>
         decode_outstream outfile ecc True =
           Inr (if ecc \<noteq> 0
                then reed_solomon_stream
                       (fountain_decoder_stream outfile (6 * (155 - ecc))) ecc (Some ''write'')
                else fountain_decoder_stream outfile (6 * (155 - ecc)))"
proof -
  have a: "fountain_chunk_size ecc BITS_PER_OP FOUNTAIN_BLOCKS =
      Inr \<lfloor>(of_int ((155 - ecc) * BITS_PER_OP * 10) :: rat) / of_int FOUNTAIN_BLOCKS\<rfloor>"
    by (rule fountain_chunk_size_floor)
  have b: "fountain_chunk_size ecc BITS_PER_OP FOUNTAIN_BLOCKS = Inr (6 * (155 - ecc))"
    by (rule fountain_chunk_size_default)
  have c: "fountain_chunk_size ECC BITS_PER_OP FOUNTAIN_BLOCKS = Inr 750"
    by (simp add: fountain_chunk_size_default) (simp add: ECC_def)
  have d: "encode_iter_instream src_data ecc True =
      Inr (if ecc \<noteq> 0
           then reed_solomon_stream
                  (fountain_encoder_stream src_data (6 * (155 - ecc))) ecc None
           else fountain_encoder_stream src_data (6 * (155 - ecc)),
           6 * (155 - ecc))"
    by (simp add: encode_iter_instream_eq Let_def)
  have e: "decode_outstream outfile ecc True =
      Inr (if ecc \<noteq> 0
           then reed_solomon_stream
                  (fountain_decoder_stream outfile (6 * (155 - ecc))) ecc (Some ''write'')
           else fountain_decoder_stream outfile (6 * (155 - ecc)))"
    by (simp add: decode_outstream_eq Let_def)
  from a b c d e show ?thesis
    by (intro conjI)
qed

theorem fountain_chunk_size_value_witness:
  "fountain_chunk_size 30 BITS_PER_OP FOUNTAIN_BLOCKS = Inr 750 \<and>
   encode_iter_instream ''payload'' 30 True =
     Inr (reed_solomon_stream (fountain_encoder_stream ''payload'' 750) 30 None, 750) \<and>
   decode_outstream ''out'' 30 True =
     Inr (reed_solomon_stream (fountain_decoder_stream ''out'' 750) 30 (Some ''write''))"
proof -
  have lo: "(0::int) \<le> 30" and hi: "(30::int) \<le> 155"
    by simp_all
  note t = fountain_chunk_size_value [OF lo hi, of "''payload''" "''out''"]
  from t have a: "fountain_chunk_size 30 BITS_PER_OP FOUNTAIN_BLOCKS = Inr (6 * (155 - 30))"
    by blast
  from t have b: "encode_iter_instream ''payload'' 30 True =
      Inr (if (30::int) \<noteq> 0
           then reed_solomon_stream
                  (fountain_encoder_stream ''payload'' (6 * (155 - 30))) 30 None
           else fountain_encoder_stream ''payload'' (6 * (155 - 30)),
           6 * (155 - 30))"
    by blast
  from t have c: "decode_outstream ''out'' 30 True =
      Inr (if (30::int) \<noteq> 0
           then reed_solomon_stream
                  (fountain_decoder_stream ''out'' (6 * (155 - 30))) 30 (Some ''write'')
           else fountain_decoder_stream ''out'' (6 * (155 - 30)))"
    by blast
  from a b c show ?thesis
    by simp
qed

text \<open>
  Claim C9. With \<open>ecc = 0\<close> neither pipeline has a Reed-Solomon stage: the stream
  that \<open>encode_iter\<close> hands to the bit reader is the fountain encoder stream, or the
  raw input file, itself; and the stream that \<open>decode\<close> hands to the interleaved
  writer is the fountain decoder stream, or the raw output file, itself. For
  \<open>ecc \<noteq> 0\<close> (here 30) the same streams are wrapped in \<open>reed_solomon_stream\<close>.
\<close>

theorem ecc_zero_has_no_reed_solomon:
  "encode_iter_instream src_data 0 fountain =
     Inr (if fountain then fountain_encoder_stream src_data 930 else open_rb src_data,
          if fountain then 930 else 16384) \<and>
   decode_outstream outfile 0 fountain =
     Inr (if fountain then fountain_decoder_stream outfile 930 else open_wb outfile) \<and>
   encode_iter env src_data 0 fountain =
     Inr (encode_iter_loop env
            (interleave env (enc_cell_positions env CELL_SPACING CELL_DIMENSIONS CELLS_OFFSET)
               INTERLEAVE_BLOCKS INTERLEAVE_PARTITIONS)
            (bit_file_open env
               (if fountain then fountain_encoder_stream src_data 930 else open_rb src_data)
               BITS_PER_OP (if fountain then 930 else 16384))) \<and>
   encode_iter_instream src_data 30 fountain =
     Inr (reed_solomon_stream
            (if fountain then fountain_encoder_stream src_data 750 else open_rb src_data)
            30 None,
          if fountain then 750 else 16384) \<and>
   decode_outstream outfile 30 fountain =
     Inr (reed_solomon_stream
            (if fountain then fountain_decoder_stream outfile 750 else open_wb outfile)
            30 (Some ''write''))"
  by (simp add: encode_iter_def encode_iter_instream_eq decode_outstream_eq bind_err_def
      Let_def)

section \<open>Properties of the encoder\<close>

lemma paste_size:
  "img_w (paste img im pos) = img_w img \<and> img_h (paste img im pos) = img_h img"
  by (cases pos) (simp add: paste_def)

lemma encode_paste_size:
  "img_w (encode_paste env dark items img) = img_w img \<and>
   img_h (encode_paste env dark items img) = img_h img"
proof (induction items arbitrary: img)
  case Nil
  show ?case by simp
next
  case (Cons item items)
  obtain bits x y where item: "item = (bits, x, y)"
    by (cases item)
  show ?case
    by (simp add: item Let_def Cons.IH paste_size)
qed

lemma get_image_template_size:
  assumes "get_image_template s width dark = Inr img"
  shows "img_w img = width \<and> img_h img = width"
  using assms
  by (auto simp: get_image_template_def bind_err_def Let_def paste_size Image_new_def
      split: sum.splits)

lemma encode_image_size:
  assumes "encode_image env s src_data dark ecc fountain = Inr img"
  shows "img_w img = TOTAL_SIZE \<and> img_h img = TOTAL_SIZE"
proof -
  from assms obtain t items where
    t: "get_image_template s TOTAL_SIZE dark = Inr t" and
    img: "img = encode_paste env dark items t"
    by (auto simp: encode_image_def bind_err_def split: sum.splits)
  from get_image_template_size [OF t] show ?thesis
    by (simp add: img encode_paste_size)
qed

text \<open>\<open>encode\<close> raises only when one of the four bitmaps is missing.\<close>

lemma get_image_template_succeeds:
  assumes "fs_files s (''bitmap/anchor-'' @ (if dark then ''dark'' else ''light'') @ ''.png'') = Some a"
    and "fs_files s (''bitmap/anchor-secondary-'' @ (if dark then ''dark'' else ''light'') @ ''.png'') = Some b"
    and "fs_files s (''bitmap/guide-horizontal-'' @ (if dark then ''dark'' else ''light'') @ ''.png'') = Some h"
    and "fs_files s (''bitmap/guide-vertical-'' @ (if dark then ''dark'' else ''light'') @ ''.png'') = Some v"
  shows "\<exists>img. get_image_template s width dark = Inr img"
  using assms
  by (cases dark) (simp_all add: get_image_template_def Image_open_def bind_err_def Let_def)

lemma encode_iter_succeeds: "\<exists>items. encode_iter env src_data ecc fountain = Inr items"
  by (simp add: encode_iter_def encode_iter_instream_eq bind_err_def Let_def)

lemma encode_succeeds:
  assumes "fs_files s (''bitmap/anchor-'' @ (if dark then ''dark'' else ''light'') @ ''.png'') = Some a"
    and "fs_files s (''bitmap/anchor-secondary-'' @ (if dark then ''dark'' else ''light'') @ ''.png'') = Some b"
    and "fs_files s (''bitmap/guide-horizontal-'' @ (if dark then ''dark'' else ''light'') @ ''.png'') = Some h"
    and "fs_files s (''bitmap/guide-vertical-'' @ (if dark then ''dark'' else ''light'') @ ''.png'') = Some v"
  shows "\<exists>s'. encode env s src_data dst_image dark ecc fountain = Inr s'"
proof -
  from get_image_template_succeeds [OF assms] obtain img where
    t: "get_image_template s TOTAL_SIZE dark = Inr img"
    by blast
  from encode_iter_succeeds obtain items where
    i: "encode_iter env src_data ecc fountain = Inr items"
    by blast
  show ?thesis
    by (simp add: encode_def encode_image_def t i bind_err_def)
qed

text \<open>
  Claim C8. Whatever the payload (the bit reader and the stream are arbitrary),
  palette, ecc level and fountain flag, the image that \<open>encode\<close> saves is
  \<open>TOTAL_SIZE \<times> TOTAL_SIZE = 1024 \<times> 1024\<close>: the template is created at that size and
  no paste changes the size.
\<close>

theorem encode_image_is_1024_square:
  assumes "encode env s src_data dst_image dark ecc fountain = Inr s'"
  shows "\<exists>img. encode_image env s src_data dark ecc fountain = Inr img \<and>
               fs_files s' dst_image = Some img \<and>
               img_w img = 1024 \<and> img_h img = 1024"
proof -
  from assms obtain img where
    img: "encode_image env s src_data dark ecc fountain = Inr img" and
    s': "s' = s\<lparr>fs_files := (fs_files s)(dst_image \<mapsto> img)\<rparr>"
    by (auto simp: encode_def bind_err_def split: sum.splits)
  from encode_image_size [OF img] have "img_w img = 1024 \<and> img_h img = 1024"
    by (simp add: TOTAL_SIZE_def)
  with img s' show ?thesis
    by simp
qed

theorem encode_image_is_1024_square_witness:
  "\<exists>s' img. encode toy_encode_env asset_fs ''payload'' ''code.png'' True 30 False = Inr s' \<and>
            fs_files s' ''code.png'' = Some img \<and> img_w img = 1024 \<and> img_h img = 1024"
proof -
  have "\<exists>s'. encode toy_encode_env asset_fs ''payload'' ''code.png'' True 30 False = Inr s'"
    by (rule encode_succeeds [where a = "flat_image 30 30 (RGB 255 255 255)"
          and b = "flat_image 30 30 (RGB 255 0 0)"
          and h = "flat_image 32 2 (RGB 255 255 255)"
          and v = "flat_image 2 32 (RGB 255 255 255)"]) (simp_all add: asset_fs_def)
  then obtain s' where
    run: "encode toy_encode_env asset_fs ''payload'' ''code.png'' True 30 False = Inr s'"
    by blast
  from encode_image_is_1024_square [OF run] run show ?thesis
    by blast
qed

section \<open>Properties of the page decoder\<close>

lemma decode_iter_loop_end:
  "flood_next env order = None \<Longrightarrow>
   decode_iter_loop env ct img color_img order yielded = Some (Inr yielded)"
  by (subst decode_iter_loop.simps) simp

lemma decode_iter_loop_raise:
  "flood_next env order = Some ((i, (x, y), D), order1) \<Longrightarrow>
   decode_cell ct img color_img x y D = Inl e \<Longrightarrow>
   decode_iter_loop env ct img color_img order yielded = Some (Inl e)"
  by (subst decode_iter_loop.simps) simp

lemma decode_iter_loop_step:
  "flood_next env order = Some ((i, (x, y), D), order1) \<Longrightarrow>
   decode_cell ct img color_img x y D = Inr (bits, dx, dy, distance) \<Longrightarrow>
   decode_iter_loop env ct img color_img order yielded =
   decode_iter_loop env ct img color_img (flood_update env order1 dx dy distance)
     (yielded @ [(i, bits)])"
  by (subst decode_iter_loop.simps) simp

lemma setup_deskew:
  "decode_iter_setup env src_image dark force_preprocess True auto_dewarp s =
     (let tempdir = mkdtemp env s;
          temp_img = path_join tempdir (basename src_image)
      in case detect_and_deskew env src_image temp_img dark auto_dewarp
                (s\<lparr>fs_tempdirs := tempdir # fs_tempdirs s\<rparr>) of
           (Inl e, s2) \<Rightarrow> (Inl e, s2)
         | (Inr dims, s2) \<Rightarrow>
             (case Image_open s2 temp_img of
                Inl e \<Rightarrow> (Inl e, s2)
              | Inr color_img \<Rightarrow>
                  (Inr \<lparr>ctx_should_preprocess =
                          (force_preprocess \<or> fst dims < TOTAL_SIZE \<or> snd dims < TOTAL_SIZE),
                        ctx_tempdir = Some tempdir,
                        ctx_color_img = color_img,
                        ctx_ct = CimbDecoder env dark BITS_PER_SYMBOL BITS_PER_COLOR,
                        ctx_img = (if force_preprocess \<or> fst dims < TOTAL_SIZE \<or>
                                      snd dims < TOTAL_SIZE
                                   then preprocess_for_decode env color_img else color_img)\<rparr>,
                   s2)))"
  by (simp add: decode_iter_setup_def TemporaryDirectory_def Let_def
      split: prod.splits sum.splits)

lemma decode_iter_loop_yields:
  assumes "decode_iter_loop env ct img color_img order acc = Some r"
  shows "\<forall>ys. r = Inr ys \<longrightarrow>
          (\<exists>new. ys = acc @ new \<and>
             (\<forall>p\<in>set new. \<exists>order0 order1 x y D dx dy d.
                 flood_next env order0 = Some ((fst p, (x, y), D), order1) \<and>
                 decode_cell ct img color_img x y D = Inr (snd p, dx, dy, d)))"
  using assms
proof (induction rule: decode_iter_loop.raw_induct [rotated 1, consumes 1, case_names step])
  case (step loop env ct img color_img order acc r)
  show ?case
  proof (cases "flood_next env order")
    case None
    with step(2) show ?thesis
      by auto
  next
    case (Some v)
    obtain i x y D order1 where v: "v = ((i, (x, y), D), order1)"
      by (cases v) auto
    show ?thesis
    proof (cases "decode_cell ct img color_img x y D")
      case (Inl e)
      with step(2) Some v show ?thesis
        by auto
    next
      case (Inr res)
      obtain bits dx dy d where res: "res = (bits, dx, dy, d)"
        by (cases res)
      from step(2) Some v Inr res have
        "loop env ct img color_img (flood_update env order1 dx dy d) (acc @ [(i, bits)]) = Some r"
        by simp
      from step(1) [OF this] have ih: "\<forall>ys. r = Inr ys \<longrightarrow>
          (\<exists>new. ys = (acc @ [(i, bits)]) @ new \<and>
             (\<forall>p\<in>set new. \<exists>order0 order1 x y D dx dy d.
                 flood_next env order0 = Some ((fst p, (x, y), D), order1) \<and>
                 decode_cell ct img color_img x y D = Inr (snd p, dx, dy, d)))" .
      show ?thesis
      proof (intro allI impI)
        fix ys assume "r = Inr ys"
        with ih obtain new where n: "ys = (acc @ [(i, bits)]) @ new" and
          c: "\<forall>p\<in>set new. \<exists>order0 order1 x y D dx dy d.
                 flood_next env order0 = Some ((fst p, (x, y), D), order1) \<and>
                 decode_cell ct img color_img x y D = Inr (snd p, dx, dy, d)"
          by blast
        have h: "\<exists>order0 order1 x y D dx dy d.
                 flood_next env order0 = Some ((fst (i, bits), (x, y), D), order1) \<and>
                 decode_cell ct img color_img x y D = Inr (snd (i, bits), dx, dy, d)"
          using Some v Inr res by fastforce
        show "\<exists>new. ys = acc @ new \<and>
             (\<forall>p\<in>set new. \<exists>order0 order1 x y D dx dy d.
                 flood_next env order0 = Some ((fst p, (x, y), D), order1) \<and>
                 decode_cell ct img color_img x y D = Inr (snd p, dx, dy, d))"
          apply (rule exI [of _ "(i, bits) # new"])
          using n c h by auto
      qed
    qed
  qed
qed

lemma decode_iter_yields:
  assumes su: "decode_iter_setup env src_image dark force_preprocess deskew auto_dewarp s =
             (Inr ctx, s')"
    and run: "decode_iter env src_image dark force_preprocess deskew auto_dewarp s =
             Some (Inr yielded, s'')"
    and p: "p \<in> set yielded"
  shows "\<exists>order order1 x y D dx dy.
           flood_next env order = Some ((fst p, (x, y), D), order1) \<and>
           snd p = fst (classify_at (ctx_ct ctx) (ctx_img ctx) x y D (dx, dy)) +
                   decode_color (ctx_ct ctx) (best_cell (ctx_color_img ctx) x y D dx dy)"
proof -
  from run have "decode_iter_loop env (ctx_ct ctx) (ctx_img ctx) (ctx_color_img ctx)
      (FloodDecodeOrder env (cell_positions env CELL_SPACING CELL_DIMENSIONS CELLS_OFFSET)
         (AdjacentCellFinder env
            (cell_positions env CELL_SPACING CELL_DIMENSIONS CELLS_OFFSET) CELL_DIMENSIONS))
      [] = Some (Inr yielded)"
    by (auto simp: decode_iter_def su Let_def split: option.splits sum.splits)
  from decode_iter_loop_yields [OF this] p obtain order order1 x y D dx dy d where
    nxt: "flood_next env order = Some ((fst p, (x, y), D), order1)" and
    dc: "decode_cell (ctx_ct ctx) (ctx_img ctx) (ctx_color_img ctx) x y D =
           Inr (snd p, dx, dy, d)"
    by fastforce
  from decode_cell_Inr [OF dc] nxt show ?thesis
    by blast
qed

text \<open>
  Claim C6. With deskew enabled, \<open>decode_iter\<close> sharpens exactly when
  \<open>force_preprocess\<close> is set or one of the dimensions that the deskewer reports is
  below \<open>TOTAL_SIZE\<close>; at exactly \<open>1024 \<times> 1024\<close> without \<open>force_preprocess\<close> the
  image used for symbols is the colour image itself. When sharpening applies, the image
  used for symbols is \<open>_preprocess_for_decode\<close> of the colour image, which is the
  colour image converted from RGB to BGR, filtered by \<open>cv2.filter2D\<close> with depth \<open>-1\<close>
  and the \<open>3 \<times> 3\<close> kernel whose centre is \<open>8.5\<close> and whose eight other entries are
  \<open>-1\<close>, and converted to grey. The colour image is in every case the file that the
  deskewer wrote, as opened. Every pair \<open>(i, bits)\<close> that \<open>decode_iter\<close> yields is for a
  cell \<open>(i, (x, y), drift)\<close> that the decode order emitted, and \<open>bits\<close> is the sum of
  the symbol bits, classified on the image used for symbols (sharpened or not), and of
  the colour bits, which \<open>decode_color\<close> reads from the inner patch of the colour
  image, never from the sharpened one.
\<close>

theorem decode_iter_preprocess_rule:
  assumes "decode_iter_setup env src_image dark force_preprocess True auto_dewarp s =
             (Inr ctx, s')"
  shows "\<exists>w h. detect_and_deskew env src_image
                  (path_join (mkdtemp env s) (basename src_image)) dark auto_dewarp
                  (s\<lparr>fs_tempdirs := mkdtemp env s # fs_tempdirs s\<rparr>) = (Inr (w, h), s') \<and>
           ctx_should_preprocess ctx =
             (force_preprocess \<or> w < TOTAL_SIZE \<or> h < TOTAL_SIZE) \<and>
           ctx_img ctx =
             (if ctx_should_preprocess ctx
              then preprocess_for_decode env (ctx_color_img ctx) else ctx_color_img ctx) \<and>
           preprocess_for_decode env (ctx_color_img ctx) =
             cvtColor env
               (filter2D env (cvtColor env (ctx_color_img ctx) COLOR_RGB2BGR) (- 1)
                  [[- 1, - 1, - 1], [- 1, 17 / 2, - 1], [- 1, - 1, - 1]])
               COLOR_BGR2GRAY \<and>
           (\<not> force_preprocess \<and> w = 1024 \<and> h = 1024 \<longrightarrow>
              \<not> ctx_should_preprocess ctx \<and> ctx_img ctx = ctx_color_img ctx) \<and>
           Image_open s' (path_join (mkdtemp env s) (basename src_image)) =
             Inr (ctx_color_img ctx) \<and>
           decode_iter env src_image dark force_preprocess True auto_dewarp s =
             (case decode_iter_loop env (ctx_ct ctx) (ctx_img ctx) (ctx_color_img ctx)
                     (FloodDecodeOrder env
                        (cell_positions env CELL_SPACING CELL_DIMENSIONS CELLS_OFFSET)
                        (AdjacentCellFinder env
                           (cell_positions env CELL_SPACING CELL_DIMENSIONS CELLS_OFFSET)
                           CELL_DIMENSIONS)) [] of
                None \<Rightarrow> None
              | Some (Inl e) \<Rightarrow> Some (Inl e, s')
              | Some (Inr yielded) \<Rightarrow>
                  Some (Inr yielded, tempdir_cleanup (mkdtemp env s) s')) \<and>
           (\<forall>yielded s''.
              decode_iter env src_image dark force_preprocess True auto_dewarp s =
                Some (Inr yielded, s'') \<longrightarrow>
              (\<forall>p\<in>set yielded. \<exists>order order1 x y D dx dy.
                 flood_next env order = Some ((fst p, (x, y), D), order1) \<and>
                 snd p = fst (classify_at (ctx_ct ctx) (ctx_img ctx) x y D (dx, dy)) +
                         decode_color (ctx_ct ctx)
                           (best_cell (ctx_color_img ctx) x y D dx dy)))"
proof -
  let ?tmp = "path_join (mkdtemp env s) (basename src_image)"
  let ?s1 = "s\<lparr>fs_tempdirs := mkdtemp env s # fs_tempdirs s\<rparr>"
  obtain r s2 where dsk: "detect_and_deskew env src_image ?tmp dark auto_dewarp ?s1 = (r, s2)"
    by (cases "detect_and_deskew env src_image ?tmp dark auto_dewarp ?s1")
  from assms dsk obtain w h where r: "r = Inr (w, h)"
    by (cases r) (auto simp: setup_deskew Let_def)
  from assms dsk r obtain color_img where
    opened: "Image_open s2 ?tmp = Inr color_img"
    by (cases "Image_open s2 ?tmp") (auto simp: setup_deskew Let_def)
  from assms dsk r opened have s': "s' = s2" and
    ctx: "ctx = \<lparr>ctx_should_preprocess =
                    (force_preprocess \<or> w < TOTAL_SIZE \<or> h < TOTAL_SIZE),
                 ctx_tempdir = Some (mkdtemp env s),
                 ctx_color_img = color_img,
                 ctx_ct = CimbDecoder env dark BITS_PER_SYMBOL BITS_PER_COLOR,
                 ctx_img = (if force_preprocess \<or> w < TOTAL_SIZE \<or> h < TOTAL_SIZE
                            then preprocess_for_decode env color_img else color_img)\<rparr>"
    by (auto simp: setup_deskew Let_def)
  have run: "decode_iter env src_image dark force_preprocess True auto_dewarp s =
             (case decode_iter_loop env (ctx_ct ctx) (ctx_img ctx) (ctx_color_img ctx)
                     (FloodDecodeOrder env
                        (cell_positions env CELL_SPACING CELL_DIMENSIONS CELLS_OFFSET)
                        (AdjacentCellFinder env
                           (cell_positions env CELL_SPACING CELL_DIMENSIONS CELLS_OFFSET)
                           CELL_DIMENSIONS)) [] of
                None \<Rightarrow> None
              | Some (Inl e) \<Rightarrow> Some (Inl e, s')
              | Some (Inr yielded) \<Rightarrow>
                  Some (Inr yielded, tempdir_cleanup (mkdtemp env s) s'))"
  proof -
    have td: "ctx_tempdir ctx = Some (mkdtemp env s)"
      by (simp add: ctx)
    show ?thesis
      unfolding decode_iter_def assms
      by (simp add: Let_def td split: option.split sum.split)
  qed
  have sharp: "preprocess_for_decode env (ctx_color_img ctx) =
             cvtColor env
               (filter2D env (cvtColor env (ctx_color_img ctx) COLOR_RGB2BGR) (- 1)
                  [[- 1, - 1, - 1], [- 1, 17 / 2, - 1], [- 1, - 1, - 1]])
               COLOR_BGR2GRAY"
    by (simp add: preprocess_for_decode_def Let_def)
  have colour: "\<forall>yielded s''.
      decode_iter env src_image dark force_preprocess True auto_dewarp s =
        Some (Inr yielded, s'') \<longrightarrow>
      (\<forall>p\<in>set yielded. \<exists>order order1 x y D dx dy.
         flood_next env order = Some ((fst p, (x, y), D), order1) \<and>
         snd p = fst (classify_at (ctx_ct ctx) (ctx_img ctx) x y D (dx, dy)) +
                 decode_color (ctx_ct ctx) (best_cell (ctx_color_img ctx) x y D dx dy))"
    using decode_iter_yields [OF assms] by blast
  show ?thesis
    apply (rule exI [of _ w], rule exI [of _ h])
    apply (intro conjI)
           apply (simp add: dsk r s')
          apply (simp add: ctx)
         apply (simp add: ctx)
        apply (rule sharp)
       apply (simp add: ctx TOTAL_SIZE_def)
      apply (simp add: s' opened ctx)
     apply (rule run)
    apply (rule colour)
    done
qed

lemma toy_fields:
  "mkdtemp (toy_decode_env deskewed ct) s = ''/tmp/tmp0''"
  "deskewer (toy_decode_env deskewed ct) src_image temp_image dark auto_dewarp s =
     (deskewed,
      case deskewed of
        Inl e \<Rightarrow> s
      | Inr dims \<Rightarrow>
          s\<lparr>fs_files := (fs_files s)
               (temp_image \<mapsto> flat_image (fst dims) (snd dims) (RGB 0 0 0))\<rparr>)"
  "CimbDecoder (toy_decode_env deskewed ct) dark symbol_bits color_bits = ct"
  "cell_positions (toy_decode_env deskewed ct) spacing dimensions offset = [(offset, offset)]"
  "FloodDecodeOrder (toy_decode_env deskewed ct) cells finder = (0, cells)"
  "flood_next (toy_decode_env deskewed ct) (i, []) = None"
  "flood_next (toy_decode_env deskewed ct) (i, c # cs) = Some ((i, c, no_drift), (i + 1, cs))"
  "flood_update (toy_decode_env deskewed ct) order dx dy distance = order"
  by (simp_all add: toy_decode_env_def)

lemma toy_setup:
  "decode_iter_setup (toy_decode_env (Inr (w, h)) ct) ''page.png'' dark force True auto_dewarp
     page_fs =
   (Inr \<lparr>ctx_should_preprocess = (force \<or> w < 1024 \<or> h < 1024),
         ctx_tempdir = Some ''/tmp/tmp0'',
         ctx_color_img = flat_image w h (RGB 0 0 0),
         ctx_ct = ct,
         ctx_img = (if force \<or> w < 1024 \<or> h < 1024
                    then preprocess_for_decode (toy_decode_env (Inr (w, h)) ct)
                           (flat_image w h (RGB 0 0 0))
                    else flat_image w h (RGB 0 0 0))\<rparr>,
    \<lparr>fs_files = [''page.png'' \<mapsto> blank_page,
                 ''/tmp/tmp0/page.png'' \<mapsto> flat_image w h (RGB 0 0 0)],
     fs_tempdirs = [''/tmp/tmp0'']\<rparr>)"
  by (simp add: setup_deskew Let_def toy_fields detect_and_deskew_def Image_open_def
      path_join_def basename_def page_fs_def TOTAL_SIZE_def)

lemma toy_setup_raise:
  "decode_iter_setup (toy_decode_env (Inl e) ct) ''page.png'' dark force True auto_dewarp
     page_fs =
   (Inl e, \<lparr>fs_files = [''page.png'' \<mapsto> blank_page], fs_tempdirs = [''/tmp/tmp0'']\<rparr>)"
  by (simp add: setup_deskew Let_def toy_fields detect_and_deskew_def page_fs_def)

lemma toy_loop:
  "decode_iter_loop (toy_decode_env deskewed (fixed_decoder b d c)) (fixed_decoder b d c)
     img color_img (0, [(8, 8)]) [] =
   Some (if d \<le> 1000 then Inr [(0, b + c)] else Inl UnboundLocalError)"
proof (cases "d \<le> 1000")
  case True
  let ?env = "toy_decode_env deskewed (fixed_decoder b d c)"
  have "decode_iter_loop ?env (fixed_decoder b d c) img color_img (0, [(8, 8)]) [] =
        decode_iter_loop ?env (fixed_decoder b d c) img color_img
          (flood_update ?env (0 + 1, []) 0 0 d) ([] @ [(0, b + c)])"
    by (rule decode_iter_loop_step [where x = 8 and y = 8 and D = no_drift])
      (simp_all add: toy_fields run_fixed True)
  also have "\<dots> = Some (Inr [(0, b + c)])"
    by (simp add: toy_fields decode_iter_loop_end)
  finally show ?thesis
    by (simp add: True)
next
  case False
  let ?env = "toy_decode_env deskewed (fixed_decoder b d c)"
  have "decode_iter_loop ?env (fixed_decoder b d c) img color_img (0, [(8, 8)]) [] =
        Some (Inl UnboundLocalError)"
    by (rule decode_iter_loop_raise [where i = 0 and x = 8 and y = 8 and D = no_drift
          and ?order1.0 = "(0 + 1, [])"])
      (simp_all add: toy_fields run_fixed False)
  then show ?thesis
    by (simp add: False)
qed

lemma toy_decode_iter:
  "tempdirs_after
     (decode_iter (toy_decode_env (Inr (1024, 1024)) (fixed_decoder b d c)) ''page.png''
        dark False True auto_dewarp page_fs) =
   Some (if d \<le> 1000 then (Inr [(0, b + c)], [])
         else (Inl UnboundLocalError, [''/tmp/tmp0'']))"
  by (simp add: decode_iter_def toy_setup Let_def toy_fields toy_loop tempdirs_after_def
      tempdir_cleanup_def CELLS_OFFSET_def)

lemma toy_decode_iter_raise:
  "tempdirs_after
     (decode_iter (toy_decode_env (Inl e) ct) ''page.png''
        dark False True auto_dewarp page_fs) =
   Some (Inl e, [''/tmp/tmp0''])"
  by (simp add: decode_iter_def toy_setup_raise tempdirs_after_def)

lemma run_mode_probe:
  "decode_cell mode_probe img color_img x y no_drift =
     Inr ((case img_mode img of ModeL \<Rightarrow> 3 | ModeRGB \<Rightarrow> 7) +
          (case img_mode color_img of ModeRGB \<Rightarrow> 32 | ModeL \<Rightarrow> 16), 0, 0, 0)"
proof -
  have sym: "classify_at mode_probe img x y no_drift (0, 0) =
      (case img_mode img of ModeL \<Rightarrow> (3, 0) | ModeRGB \<Rightarrow> (7, 0))"
    by (simp add: classify_at_def cell_patch_def crop_def mode_probe_def)
  have col: "decode_color mode_probe (best_cell color_img x y no_drift 0 0) =
      (case img_mode color_img of ModeRGB \<Rightarrow> 32 | ModeL \<Rightarrow> 16)"
    by (simp add: best_cell_def crop_def mode_probe_def Let_def)
  have loop: "decode_cell_loop mode_probe img x y no_drift (drift_pairs no_drift) (1000, None) =
      (0, Some ((case img_mode img of ModeL \<Rightarrow> 3 | ModeRGB \<Rightarrow> 7), 0, 0))"
    by (cases "img_mode img")
      (simp_all add: no_drift_fields(3) decode_cell_loop_step Let_def distance_at_def sym
        del: decode_cell_loop.simps)
  show ?thesis
    by (simp add: decode_cell_def loop col)
qed

lemma toy_preprocess_mode:
  "img_mode (preprocess_for_decode (toy_decode_env deskewed ct) img) = ModeL"
  by (simp add: preprocess_for_decode_def Let_def toy_decode_env_def)

lemma toy_loop_mode_probe:
  "decode_iter_loop (toy_decode_env deskewed mode_probe) mode_probe img color_img
     (0, [(8, 8)]) [] =
   Some (Inr [(0, (case img_mode img of ModeL \<Rightarrow> 3 | ModeRGB \<Rightarrow> 7) +
                  (case img_mode color_img of ModeRGB \<Rightarrow> 32 | ModeL \<Rightarrow> 16))])"
proof -
  let ?env = "toy_decode_env deskewed mode_probe"
  let ?b = "(case img_mode img of ModeL \<Rightarrow> 3 | ModeRGB \<Rightarrow> 7) +
            (case img_mode color_img of ModeRGB \<Rightarrow> 32 | ModeL \<Rightarrow> (16::int))"
  have "decode_iter_loop ?env mode_probe img color_img (0, [(8, 8)]) [] =
        decode_iter_loop ?env mode_probe img color_img
          (flood_update ?env (0 + 1, []) 0 0 0) ([] @ [(0, ?b)])"
    by (rule decode_iter_loop_step [where x = 8 and y = 8 and D = no_drift])
      (simp_all add: toy_fields run_mode_probe)
  also have "\<dots> = Some (Inr [(0, ?b)])"
    by (simp add: toy_fields decode_iter_loop_end)
  finally show ?thesis .
qed

lemma toy_decode_iter_mode_probe:
  "tempdirs_after
     (decode_iter (toy_decode_env (Inr (w, h)) mode_probe) ''page.png''
        dark force True auto_dewarp page_fs) =
   Some (Inr [(0, if force \<or> w < 1024 \<or> h < 1024 then 35 else 39)], [])"
  by (simp add: decode_iter_def toy_setup Let_def toy_fields toy_loop_mode_probe
      tempdirs_after_def tempdir_cleanup_def CELLS_OFFSET_def toy_preprocess_mode
      flat_image_def)

theorem decode_iter_preprocess_rule_witness:
  "(\<exists>ctx s'. decode_iter_setup (toy_decode_env (Inr (1024, 1024)) mode_probe)
               ''page.png'' True False True True page_fs = (Inr ctx, s') \<and>
            \<not> ctx_should_preprocess ctx \<and> ctx_img ctx = ctx_color_img ctx) \<and>
   (\<exists>ctx s'. decode_iter_setup (toy_decode_env (Inr (1000, 1024)) mode_probe)
               ''page.png'' True False True True page_fs = (Inr ctx, s') \<and>
            ctx_should_preprocess ctx \<and>
            ctx_img ctx =
              cvtColor (toy_decode_env (Inr (1000, 1024)) mode_probe)
                (filter2D (toy_decode_env (Inr (1000, 1024)) mode_probe)
                   (cvtColor (toy_decode_env (Inr (1000, 1024)) mode_probe)
                      (ctx_color_img ctx) COLOR_RGB2BGR) (- 1)
                   [[- 1, - 1, - 1], [- 1, 17 / 2, - 1], [- 1, - 1, - 1]])
                COLOR_BGR2GRAY \<and>
            img_mode (ctx_img ctx) = ModeL \<and> img_mode (ctx_color_img ctx) = ModeRGB) \<and>
   tempdirs_after
     (decode_iter (toy_decode_env (Inr (1000, 1024)) mode_probe) ''page.png''
        True False True True page_fs) = Some (Inr [(0, 3 + 32)], []) \<and>
   tempdirs_after
     (decode_iter (toy_decode_env (Inr (1024, 1024)) mode_probe) ''page.png''
        True False True True page_fs) = Some (Inr [(0, 7 + 32)], [])"
proof -
  let ?env = "toy_decode_env (Inr (1024, 1024)) mode_probe"
  let ?env' = "toy_decode_env (Inr (1000, 1024)) mode_probe"
  obtain ctx s' where
    run: "decode_iter_setup ?env ''page.png'' True False True True page_fs = (Inr ctx, s')"
    by (simp add: toy_setup)
  from decode_iter_preprocess_rule [OF run] obtain w h where
    dsk: "detect_and_deskew ?env ''page.png''
            (path_join (mkdtemp ?env page_fs) (basename ''page.png'')) True True
            (page_fs\<lparr>fs_tempdirs := mkdtemp ?env page_fs # fs_tempdirs page_fs\<rparr>) =
          (Inr (w, h), s')" and
    imp: "\<not> False \<and> w = 1024 \<and> h = 1024 \<longrightarrow>
           \<not> ctx_should_preprocess ctx \<and> ctx_img ctx = ctx_color_img ctx"
    by blast
  from dsk have "w = 1024 \<and> h = 1024"
    by (simp add: detect_and_deskew_def toy_fields)
  with imp run have a: "\<exists>ctx s'. decode_iter_setup ?env ''page.png'' True False True True
      page_fs = (Inr ctx, s') \<and> \<not> ctx_should_preprocess ctx \<and> ctx_img ctx = ctx_color_img ctx"
    by blast
  obtain ctx' t' where
    run': "decode_iter_setup ?env' ''page.png'' True False True True page_fs = (Inr ctx', t')"
    by (simp add: toy_setup)
  from decode_iter_preprocess_rule [OF run'] obtain w' h' where
    dsk': "detect_and_deskew ?env' ''page.png''
            (path_join (mkdtemp ?env' page_fs) (basename ''page.png'')) True True
            (page_fs\<lparr>fs_tempdirs := mkdtemp ?env' page_fs # fs_tempdirs page_fs\<rparr>) =
          (Inr (w', h'), t')" and
    sp: "ctx_should_preprocess ctx' = (False \<or> w' < TOTAL_SIZE \<or> h' < TOTAL_SIZE)" and
    im: "ctx_img ctx' =
           (if ctx_should_preprocess ctx'
            then preprocess_for_decode ?env' (ctx_color_img ctx') else ctx_color_img ctx')" and
    sh: "preprocess_for_decode ?env' (ctx_color_img ctx') =
           cvtColor ?env'
             (filter2D ?env' (cvtColor ?env' (ctx_color_img ctx') COLOR_RGB2BGR) (- 1)
                [[- 1, - 1, - 1], [- 1, 17 / 2, - 1], [- 1, - 1, - 1]])
             COLOR_BGR2GRAY"
    by blast
  from dsk' have wh: "w' = 1000 \<and> h' = 1024"
    by (simp add: detect_and_deskew_def toy_fields)
  with sp have sp': "ctx_should_preprocess ctx'"
    by (simp add: TOTAL_SIZE_def)
  with im sh have im': "ctx_img ctx' =
           cvtColor ?env'
             (filter2D ?env' (cvtColor ?env' (ctx_color_img ctx') COLOR_RGB2BGR) (- 1)
                [[- 1, - 1, - 1], [- 1, 17 / 2, - 1], [- 1, - 1, - 1]])
             COLOR_BGR2GRAY"
    by simp
  from im sp' have ml: "img_mode (ctx_img ctx') = ModeL"
    by (simp add: toy_preprocess_mode)
  from run' have mc: "img_mode (ctx_color_img ctx') = ModeRGB"
    by (auto simp: toy_setup flat_image_def)
  from run' sp' im' ml mc have b: "\<exists>ctx s'. decode_iter_setup ?env' ''page.png'' True False
      True True page_fs = (Inr ctx, s') \<and> ctx_should_preprocess ctx \<and>
      ctx_img ctx =
        cvtColor ?env'
          (filter2D ?env' (cvtColor ?env' (ctx_color_img ctx) COLOR_RGB2BGR) (- 1)
             [[- 1, - 1, - 1], [- 1, 17 / 2, - 1], [- 1, - 1, - 1]])
          COLOR_BGR2GRAY \<and>
      img_mode (ctx_img ctx) = ModeL \<and> img_mode (ctx_color_img ctx) = ModeRGB"
    by blast
  have c: "tempdirs_after (decode_iter ?env' ''page.png'' True False True True page_fs) =
      Some (Inr [(0, 3 + 32)], [])"
    by (simp add: toy_decode_iter_mode_probe)
  have d: "tempdirs_after (decode_iter ?env ''page.png'' True False True True page_fs) =
      Some (Inr [(0, 7 + 32)], [])"
    by (simp add: toy_decode_iter_mode_probe)
  from a b c d show ?thesis
    by (intro conjI)
qed

lemma decode_iter_error_skips_cleanup:
  assumes "decode_iter env src_image dark force_preprocess deskew auto_dewarp s =
             Some (Inl e, s')"
  shows "s' = snd (decode_iter_setup env src_image dark force_preprocess deskew auto_dewarp s)"
  using assms
  by (auto simp: decode_iter_def Let_def split: prod.splits sum.splits option.splits)

lemma setup_deskew_state:
  "snd (decode_iter_setup env src_image dark force_preprocess True auto_dewarp s) =
   snd (detect_and_deskew env src_image (path_join (mkdtemp env s) (basename src_image))
          dark auto_dewarp (s\<lparr>fs_tempdirs := mkdtemp env s # fs_tempdirs s\<rparr>))"
  by (simp add: setup_deskew Let_def split: prod.splits sum.splits)

lemma setup_deskew_tempdir:
  assumes "decode_iter_setup env src_image dark force_preprocess True auto_dewarp s =
             (Inr ctx, s')"
  shows "ctx_tempdir ctx = Some (mkdtemp env s)"
  using assms
  by (auto simp: setup_deskew Let_def split: prod.splits sum.splits)

lemma decode_iter_completion_releases:
  assumes "decode_iter env src_image dark force_preprocess True auto_dewarp s =
             Some (Inr yielded, s')"
  shows "mkdtemp env s \<notin> set (fs_tempdirs s')"
proof -
  from assms obtain ctx s1 where
    su: "decode_iter_setup env src_image dark force_preprocess True auto_dewarp s =
              (Inr ctx, s1)" and
    s': "s' = (case ctx_tempdir ctx of None \<Rightarrow> s1 | Some t \<Rightarrow> tempdir_cleanup t s1)"
    by (auto simp: decode_iter_def Let_def split: prod.splits sum.splits option.splits)
  from setup_deskew_tempdir [OF su] s' show ?thesis
    by (simp add: tempdir_cleanup_def)
qed

text \<open>
  Claim C5, evaluated on the code. The clean-up of lines 131 to 133 is reached only
  when the cell loop has run to its end. When \<open>_decode_cell\<close> raises (here: every
  distance is 1001) or the deskewer raises, \<open>decode_iter\<close> ends with the temporary
  directory still in existence; when the loop completes, the directory is gone. In
  general, the file system after an exception is the one that the set-up left
  (\<open>decode_iter_error_skips_cleanup\<close>, \<open>setup_deskew_state\<close>), and after completion
  the directory is no longer listed (\<open>decode_iter_completion_releases\<close>).
\<close>

theorem tempdir_survives_exception:
  "tempdirs_after
     (decode_iter (toy_decode_env (Inr (1024, 1024)) (fixed_decoder 3 1001 32)) ''page.png''
        True False True True page_fs) =
     Some (Inl UnboundLocalError, [''/tmp/tmp0'']) \<and>
   tempdirs_after
     (decode_iter (toy_decode_env (Inl (Raised ''AnchorNotFound'')) (fixed_decoder 3 0 32))
        ''page.png'' True False True True page_fs) =
     Some (Inl (Raised ''AnchorNotFound''), [''/tmp/tmp0'']) \<and>
   tempdirs_after
     (decode_iter (toy_decode_env (Inr (1024, 1024)) (fixed_decoder 3 0 32)) ''page.png''
        True False True True page_fs) =
     Some (Inr [(0, 35)], [])"
  by (simp add: toy_decode_iter toy_decode_iter_raise)

section \<open>The round trip\<close>

subsection \<open>Cells that \<open>encode\<close> rendered\<close>
















subsection \<open>Padding\<close>





















end
